theory Spec2Isabelle
  imports Complex_Main "HOL-Library.AList"
begin

section \<open>Values of the program\<close>

text \<open>
  A JavaScript \<open>number\<close> as far as \<open>src/index.ts\<close> looks at one: it tests
  \<open>Number.isNaN\<close>, \<open>> 0\<close> and truthiness. Finite doubles are rationals; the
  two zeros are not told apart (both are falsy and neither is \<open>> 0\<close>).
\<close>

datatype number = NaN | Num rat | Infinity | NegInfinity

fun isNaN :: "number \<Rightarrow> bool" where
  "isNaN NaN = True"
| "isNaN _ = False"

text \<open>\<open>x > 0\<close> on numbers: every comparison with \<open>NaN\<close> is false.\<close>

fun gt0 :: "number \<Rightarrow> bool" where
  "gt0 NaN = False"
| "gt0 (Num r) = (0 < r)"
| "gt0 Infinity = True"
| "gt0 NegInfinity = False"

text \<open>\<open>!x\<close> on a number that may be \<open>undefined\<close> (\<open>None\<close>), as in \<open>!ctx.chatId\<close>.\<close>

fun falsy_number :: "number option \<Rightarrow> bool" where
  "falsy_number None = True"
| "falsy_number (Some NaN) = True"
| "falsy_number (Some (Num r)) = (r = 0)"
| "falsy_number (Some _) = False"

text \<open>\<open>!s\<close> on a \<open>string | null\<close>: \<open>null\<close> and the empty string are falsy.\<close>

fun falsy_string :: "string option \<Rightarrow> bool" where
  "falsy_string None = True"
| "falsy_string (Some s) = (s = [])"

subsection \<open>Errors\<close>

text \<open>
  The errors the program constructs are \<open>new InvalidError(entity)\<close> and
  \<open>new Error(message)\<close>; the platform raises others (a \<open>TypeError\<close> of
  \<open>fetch\<close>, a \<open>SyntaxError\<close> of \<open>response.json()\<close>), kept with name and message.
  \<open>InvalidError\<close> does not set \<open>name\<close>, so it inherits \<open>Error\<close>.
\<close>

datatype error = InvalidError string | Error string | PlatformError string string

fun error_name :: "error \<Rightarrow> string" where
  "error_name (InvalidError entity) = ''Error''"
| "error_name (Error msg) = ''Error''"
| "error_name (PlatformError name msg) = name"

fun error_message :: "error \<Rightarrow> string" where
  "error_message (InvalidError entity) = entity @ '' must be set''"
| "error_message (Error msg) = msg"
| "error_message (PlatformError name msg) = msg"

text \<open>
  A thrown value is \<open>unknown\<close> to the \<open>catch\<close>: an \<open>Error\<close> object, or any other
  value, of which only \<open>String(input)\<close> is ever used.
\<close>

datatype thrown = Exn error | NonError string

fun ensureError :: "thrown \<Rightarrow> error" where
  "ensureError (Exn e) = e"
| "ensureError (NonError s) = Error s"

definition formatError :: "error \<Rightarrow> string" where
  "formatError e = error_name e @ '': '' @ error_message e"

subsection \<open>Session state\<close>

record NotificationsCount =
  rooms_count :: int

record Options =
  token :: "string option"
  referer :: "string option"
  interval :: number
  allowZeroMessages :: bool
  polling :: bool
  pollingOnBoot :: bool

record NotifierState =
  count :: NotificationsCount
  options :: Options

definition DEFAULT_NOTIFIER_STATE :: NotifierState where
  "DEFAULT_NOTIFIER_STATE =
     \<lparr> count = \<lparr> rooms_count = 0 \<rparr>,
       options = \<lparr> token = None, referer = None, interval = Num 60000,
                   allowZeroMessages = False, polling = False, pollingOnBoot = False \<rparr> \<rparr>"

definition createNotifierState :: NotifierState where
  "createNotifierState = DEFAULT_NOTIFIER_STATE"

section \<open>The endpoint call\<close>

definition BASE_ENDPOINT :: string where
  "BASE_ENDPOINT = ''https://chat.ktalk.ru''"

definition NOTIFICATION_COUNT_PATH :: string where
  "NOTIFICATION_COUNT_PATH = ''_matrix/client/strangler/api/v1/talk_notifications''"

record request =
  url :: string
  hdr_Referer :: string
  hdr_Origin :: string
  hdr_Talk_Token :: string

text \<open>
  What the network does with a request once it is issued: \<open>fetch\<close> rejects, or it
  resolves with a status and a body whose \<open>json()\<close> resolves or rejects.
\<close>

datatype body = Json NotificationsCount | BadJson thrown

datatype fetch_outcome = Rejected thrown | Response int body

text \<open>
  \<open>Notifier.getNotificationCount\<close>, on the session the notifier reads: the requests
  issued and the value returned or thrown. The \<open>catch\<close> of the source rethrows.
\<close>

definition getNotificationCount ::
  "NotifierState \<Rightarrow> fetch_outcome \<Rightarrow> request list \<times> (thrown + NotificationsCount)" where
  "getNotificationCount s net =
     (if falsy_string (referer (options s)) then ([], Inl (Exn (InvalidError ''referer'')))
      else if falsy_string (token (options s)) then ([], Inl (Exn (InvalidError ''token'')))
      else
        ([\<lparr> url = BASE_ENDPOINT @ ''/'' @ NOTIFICATION_COUNT_PATH,
            hdr_Referer = the (referer (options s)),
            hdr_Origin = the (referer (options s)),
            hdr_Talk_Token = the (token (options s)) \<rparr>],
         (case net of
            Rejected t \<Rightarrow> Inl t
          | Response status b \<Rightarrow>
              if status \<noteq> 200 then Inl (Exn (Error ''Got non 200 response status''))
              else (case b of Json c \<Rightarrow> Inr c | BadJson t \<Rightarrow> Inl t))))"

section \<open>Contexts, notifiers and the process\<close>

text \<open>
  A \<open>NotifierContext\<close> is an object of the heap: its chat id (a getter over the
  update, \<open>undefined\<close> when the update has no chat), the session object it holds
  and its private \<open>#notifier\<close>. Each request and each iteration of the boot loop
  builds a new one, so contexts are addressed by number.
\<close>

record ctx =
  chatId :: "number option"
  session :: NotifierState
  notifier_ref :: "nat option"

text \<open>
  A \<open>Notifier\<close>: \<open>getSession\<close> is the closure built in \<open>NotifierFactory.create\<close>,
  which reads \<open>ctx.session\<close> of the context it was built for, so it is that context's
  address. \<open>controller\<close> counts the \<open>AbortController\<close>s made so far. The emitter's
  listeners are fixed by the code: the constructor's on \<open>notification-count:changed\<close>,
  the two that \<open>create\<close> registers (they close over the creating context, \<open>relay\<close>),
  and the \<open>once('poll')\<close> listeners that \<open>startPollingNotifications\<close> adds, of
  which \<open>once_poll\<close> are pending.
\<close>

record notifier =
  getSession :: nat
  controller :: nat
  relay :: nat
  once_poll :: nat

datatype event =
    Stop
  | Start
  | ErrorEvent error
  | Poll bool
  | NotificationCount NotificationsCount
  | NotificationCountChanged NotificationsCount
  | StateChanged NotifierState

datatype outmsg = Reply nat string | SendMessage number string

datatype delay = Now | After number

text \<open>
  The process: the heap of contexts and notifiers, \<open>NotifierFactory.registry\<close>, the
  file store (one record per chat id, in key order) and, as logs, what the program did
  to the outside: messages handed to the chat transport, requests issued, events
  emitted per notifier, and the calls \<open>poll()\<close> (\<open>Now\<close>) and
  \<open>setTimeout(poll, d)\<close> (\<open>After d\<close>).
\<close>

record world =
  ctxs :: "nat \<Rightarrow> ctx"
  next_ctx :: nat
  notifiers :: "nat \<Rightarrow> notifier"
  next_notifier :: nat
  registry :: "number \<rightharpoonup> nat"
  storage :: "(number \<times> NotifierState) list"
  sent :: "outmsg list"
  requests :: "request list"
  emitted :: "(nat \<times> event) list"
  scheduled :: "(nat \<times> delay) list"

definition this_session :: "world \<Rightarrow> nat \<Rightarrow> NotifierState" where
  "this_session w n = session (ctxs w (getSession (notifiers w n)))"

text \<open>
  The callback that \<open>getSession\<close> hands to \<open>sessionProxy\<close> for context \<open>c\<close>:
  \<open>if (!ctx.chatId) return; storage.write(ctx.chatId.toString(), ctx.session)\<close>.
  The store is keyed by the chat id itself, and the record counts as written when
  \<open>storage.write\<close> is called (what the file adapter does after that is not part of
  this program).
\<close>

definition trigger :: "world \<Rightarrow> nat \<Rightarrow> world" where
  "trigger w c =
     (case chatId (ctxs w c) of
        None \<Rightarrow> w
      | Some k \<Rightarrow>
          if falsy_number (Some k) then w
          else w\<lparr>storage := AList.update k (session (ctxs w c)) (storage w)\<rparr>)"

text \<open>
  An assignment \<open>this.session.\<dots> = v\<close> inside the notifier: \<open>this.session\<close> is a fresh
  proxy over the session of the bound context; the \<open>set\<close> trap assigns on the target
  and then calls the trigger. \<open>f\<close> is the assignment.
\<close>

definition set_session :: "world \<Rightarrow> nat \<Rightarrow> (NotifierState \<Rightarrow> NotifierState) \<Rightarrow> world" where
  "set_session w n f =
     (let c = getSession (notifiers w n);
          cx = ctxs w c
      in trigger (w\<lparr>ctxs := (ctxs w)(c := cx\<lparr>session := f (session cx)\<rparr>)\<rparr>) c)"

definition set_polling :: "bool \<Rightarrow> NotifierState \<Rightarrow> NotifierState" where
  "set_polling b s = s\<lparr>options := (options s)\<lparr>polling := b\<rparr>\<rparr>"

definition set_pollingOnBoot :: "bool \<Rightarrow> NotifierState \<Rightarrow> NotifierState" where
  "set_pollingOnBoot b s = s\<lparr>options := (options s)\<lparr>pollingOnBoot := b\<rparr>\<rparr>"

definition set_count :: "NotificationsCount \<Rightarrow> NotifierState \<Rightarrow> NotifierState" where
  "set_count d s = s\<lparr>count := d\<rparr>"

definition reply :: "world \<Rightarrow> nat \<Rightarrow> string \<Rightarrow> world" where
  "reply w c text = w\<lparr>sent := sent w @ [Reply c text]\<rparr>"

definition sendMessage :: "world \<Rightarrow> number \<Rightarrow> string \<Rightarrow> world" where
  "sendMessage w k text = w\<lparr>sent := sent w @ [SendMessage k text]\<rparr>"

definition record_emit :: "world \<Rightarrow> nat \<Rightarrow> event \<Rightarrow> world" where
  "record_emit w n ev = w\<lparr>emitted := emitted w @ [(n, ev)]\<rparr>"

subsection \<open>Decimal rendering of a count\<close>

fun digits :: "nat \<Rightarrow> string" where
  "digits n =
     (if n < 10 then [''0123456789'' ! n]
      else digits (n div 10) @ [''0123456789'' ! (n mod 10)])"

declare digits.simps [simp del]

definition show_int :: "int \<Rightarrow> string" where
  "show_int i = (if i < 0 then CHR ''-'' # digits (nat (- i)) else digits (nat i))"

text \<open>\<open>NotifierContext.handleNotificationCount(count, showIfZero)\<close> on context \<open>c\<close>.\<close>

definition handleNotificationCount ::
  "world \<Rightarrow> nat \<Rightarrow> NotificationsCount \<Rightarrow> bool \<Rightarrow> world" where
  "handleNotificationCount w c cnt showIfZero =
     (if \<not> showIfZero \<and> \<not> allowZeroMessages (options (session (ctxs w c)))
           \<and> rooms_count cnt = 0
      then w
      else reply w c (show_int (rooms_count cnt) @ '' rooms have new messages''))"

section \<open>The notifier\<close>

subsection \<open>Emitting\<close>

text \<open>
  \<open>emitter.emit('poll', polling)\<close>: every pending \<open>once\<close> listener is removed and
  run; it returns at once for \<open>true\<close> and assigns \<open>this.session.options.polling = false\<close>
  otherwise.
\<close>

definition emit_poll :: "world \<Rightarrow> nat \<Rightarrow> bool \<Rightarrow> world" where
  "emit_poll w n b =
     (let w1 = record_emit w n (Poll b);
          k = once_poll (notifiers w1 n);
          w2 = w1\<lparr>notifiers := (notifiers w1)(n := (notifiers w1 n)\<lparr>once_poll := 0\<rparr>)\<rparr>
      in if b then w2
         else ((\<lambda>v. set_session v n (set_polling False)) ^^ k) w2)"

text \<open>
  \<open>stopPollingNotifications(commit)\<close>. \<open>abort()\<close> acts on a request in flight
  only, and a poll cycle is one step here, so what remains of it is the new controller.
\<close>

definition stopPollingNotifications :: "world \<Rightarrow> nat \<Rightarrow> bool \<Rightarrow> world" where
  "stopPollingNotifications w n commit =
     (let w1 = (if commit then set_session w n (set_pollingOnBoot False) else w);
          w2 = set_session w1 n (set_polling False);
          w3 = w2\<lparr>notifiers := (notifiers w2)(n := (notifiers w2 n)\<lparr>controller := Suc (controller (notifiers w2 n))\<rparr>)\<rparr>
      in emit_poll w3 n False)"

text \<open>
  \<open>emit('error', e)\<close>: the listener of \<open>create\<close> stops the notifier without commit
  and replies on the creating context.
\<close>

definition emit_error :: "world \<Rightarrow> nat \<Rightarrow> error \<Rightarrow> world" where
  "emit_error w n e =
     (let w1 = record_emit w n (ErrorEvent e);
          w2 = stopPollingNotifications w1 n False
      in reply w2 (relay (notifiers w2 n)) (formatError e))"

text \<open>
  \<open>emit('notification-count', data)\<close>: the listener of \<open>create\<close> calls
  \<open>ctx.handleNotificationCount(count)\<close> on the creating context.
\<close>

definition emit_notification_count :: "world \<Rightarrow> nat \<Rightarrow> NotificationsCount \<Rightarrow> world" where
  "emit_notification_count w n d =
     (let w1 = record_emit w n (NotificationCount d)
      in handleNotificationCount w1 (relay (notifiers w1 n)) d False)"

text \<open>
  \<open>emit('notification-count:changed', data)\<close>: the constructor's listener emits
  \<open>state:changed\<close> with the session, which nothing listens to.
\<close>

definition emit_notification_count_changed :: "world \<Rightarrow> nat \<Rightarrow> NotificationsCount \<Rightarrow> world" where
  "emit_notification_count_changed w n d =
     (let w1 = record_emit w n (NotificationCountChanged d)
      in record_emit w1 n (StateChanged (this_session w1 n)))"

subsection \<open>Starting and polling\<close>

text \<open>
  \<open>startPollingNotifications(force)\<close>. The call \<open>poll()\<close> is logged as
  \<open>(n, Now)\<close>; its body is \<open>poll\<close> below.
\<close>

definition startPollingNotifications :: "world \<Rightarrow> nat \<Rightarrow> bool \<Rightarrow> world" where
  "startPollingNotifications w n force =
     (if polling (options (this_session w n)) \<and> \<not> force then w
      else
        let w1 = w\<lparr>notifiers := (notifiers w)(n := (notifiers w n)\<lparr>controller := Suc (controller (notifiers w n))\<rparr>)\<rparr>;
            w2 = set_session w1 n (set_polling True);
            w3 = set_session w2 n (set_pollingOnBoot True);
            w4 = w3\<lparr>scheduled := scheduled w3 @ [(n, Now)]\<rparr>;
            w5 = emit_poll w4 n True
        in w5\<lparr>notifiers := (notifiers w5)(n := (notifiers w5 n)\<lparr>once_poll := Suc (once_poll (notifiers w5 n))\<rparr>)\<rparr>)"

text \<open>
  The call \<open>this.getNotificationCount()\<close> on notifier \<open>n\<close>, where \<open>net\<close> is what
  the network answers if a request is issued.
\<close>

definition call_getNotificationCount ::
  "world \<Rightarrow> nat \<Rightarrow> fetch_outcome \<Rightarrow> world \<times> (thrown + NotificationsCount)" where
  "call_getNotificationCount w n net =
     (case getNotificationCount (this_session w n) net of
        (rs, r) \<Rightarrow> (w\<lparr>requests := requests w @ rs\<rparr>, r))"

text \<open>
  One run of the closure \<open>poll\<close> of notifier \<open>n\<close>. The run is one step: nothing else
  of the program runs between the request and its answer.
\<close>

definition poll :: "world \<Rightarrow> nat \<Rightarrow> fetch_outcome \<Rightarrow> world" where
  "poll w n net =
     (if \<not> polling (options (this_session w n)) then w
      else
        (case call_getNotificationCount w n net of
           (w0, Inl t) \<Rightarrow> emit_error w0 n (ensureError t)
         | (w0, Inr d) \<Rightarrow>
             let w1 = emit_notification_count w0 n d;
                 w2 = (if rooms_count d \<noteq> rooms_count (count (this_session w1 n))
                       then emit_notification_count_changed w1 n d else w1);
                 w3 = set_session w2 n (set_count d)
             in w3\<lparr>scheduled := scheduled w3 @ [(n, After (interval (options (this_session w3 n))))]\<rparr>))"

section \<open>The registry\<close>

definition updateSession :: "world \<Rightarrow> nat \<Rightarrow> nat \<Rightarrow> world" where
  "updateSession w n c = w\<lparr>notifiers := (notifiers w)(n := (notifiers w n)\<lparr>getSession := c\<rparr>)\<rparr>"

text \<open>\<open>new Notifier(getSession)\<close> with the listeners of \<open>create\<close>, for context \<open>c\<close>.\<close>

definition new_notifier :: "nat \<Rightarrow> notifier" where
  "new_notifier c = \<lparr> getSession = c, controller = 0, relay = c, once_poll = 0 \<rparr>"

text \<open>
  \<open>const notifier = new Notifier(getSession); this.registry.set(ctx.chatId, notifier)\<close>:
  the new notifier takes the next free address.
\<close>

definition register_notifier :: "world \<Rightarrow> number \<Rightarrow> nat \<Rightarrow> world" where
  "register_notifier w k c =
     w\<lparr>notifiers := (notifiers w)(next_notifier w := new_notifier c),
       next_notifier := Suc (next_notifier w),
       registry := (registry w)(k \<mapsto> next_notifier w)\<rparr>"

text \<open>\<open>NotifierFactory.create(ctx)\<close> for the context at address \<open>c\<close>.\<close>

definition create :: "world \<Rightarrow> nat \<Rightarrow> world \<times> (thrown + nat)" where
  "create w c =
     (case chatId (ctxs w c) of
        None \<Rightarrow> (w, Inl (Exn (InvalidError ''chat id'')))
      | Some k \<Rightarrow>
          if falsy_number (Some k) then (w, Inl (Exn (InvalidError ''chat id'')))
          else
            (case registry w k of
               Some n \<Rightarrow> (updateSession w n c, Inr n)
             | None \<Rightarrow>
                 let n = next_notifier w;
                     w1 = register_notifier w k c;
                     w2 = (if pollingOnBoot (options (session (ctxs w1 c)))
                           then sendMessage (startPollingNotifications w1 n True) k
                                  ''Continue polling after reboot''
                           else w1)
                 in (updateSession w2 n c, Inr n)))"

section \<open>Boot\<close>

text \<open>
  One file of the store as the boot loop meets it: \<open>Number(key)\<close>, what
  \<open>storage.read(key)\<close> does (it returns the record or throws), and what the awaited
  \<open>bot.api.sendMessage(chatId, 'Bot booted')\<close> does (\<open>None\<close>: delivered).
\<close>

datatype read_outcome = ReadOk NotifierState | ReadFail thrown

record boot_entry =
  key_number :: number
  read_result :: read_outcome
  send_result :: "thrown option"

text \<open>\<open>new NotifierContext(\<dots>)\<close> with its session assigned: at the next free address.\<close>

definition new_ctx :: "world \<Rightarrow> number option \<Rightarrow> NotifierState \<Rightarrow> world" where
  "new_ctx w k s =
     w\<lparr>ctxs := (ctxs w)(next_ctx w := \<lparr> chatId = k, session = s, notifier_ref = None \<rparr>),
       next_ctx := Suc (next_ctx w)\<rparr>"

text \<open>
  The top-level loop \<open>for (const key of keys) { \<dots> }\<close>. It has no \<open>try\<close>: whatever
  an iteration throws leaves the loop (and the module).
\<close>

fun boot :: "world \<Rightarrow> boot_entry list \<Rightarrow> world \<times> (thrown + unit)" where
  "boot w [] = (w, Inr ())"
| "boot w (e # es) =
     (case read_result e of
        ReadFail t \<Rightarrow> (w, Inl t)
      | ReadOk s \<Rightarrow>
          (case create (new_ctx w (Some (key_number e)) s) (next_ctx w) of
             (w2, Inl t) \<Rightarrow> (w2, Inl t)
           | (w2, Inr n) \<Rightarrow>
               (case send_result e of
                  Some t \<Rightarrow> (w2, Inl t)
                | None \<Rightarrow> boot (sendMessage w2 (key_number e) ''Bot booted'') es)))"

text \<open>
  A new process over the store that an old one leaves behind: nothing but the store
  survives.
\<close>

definition fresh_process :: "(number \<times> NotifierState) list \<Rightarrow> world" where
  "fresh_process st =
     \<lparr> ctxs = (\<lambda>_. \<lparr> chatId = None, session = DEFAULT_NOTIFIER_STATE, notifier_ref = None \<rparr>),
       next_ctx = 0,
       notifiers = (\<lambda>_. new_notifier 0),
       next_notifier = 0,
       registry = Map.empty,
       storage = st,
       sent = [],
       requests = [],
       emitted = [],
       scheduled = [] \<rparr>"

text \<open>
  The files that the boot loop of the new process meets: one for each record of the
  store, in key order. What \<open>storage.read\<close> and the awaited \<open>sendMessage\<close> do
  for a key lies with the file system and the chat transport: \<open>rd k\<close> is what
  reading the record of \<open>k\<close> throws and \<open>sd k\<close> what sending \<open>Bot booted\<close> to
  chat \<open>k\<close> throws (\<open>None\<close>: the record is returned, the message is delivered).
\<close>

definition entry_of ::
  "(number \<Rightarrow> thrown option) \<Rightarrow> (number \<Rightarrow> thrown option) \<Rightarrow> number \<times> NotifierState \<Rightarrow> boot_entry" where
  "entry_of rd sd ks =
     \<lparr> key_number = fst ks,
       read_result = (case rd (fst ks) of None \<Rightarrow> ReadOk (snd ks) | Some t \<Rightarrow> ReadFail t),
       send_result = sd (fst ks) \<rparr>"

definition restart ::
  "world \<Rightarrow> (number \<Rightarrow> thrown option) \<Rightarrow> (number \<Rightarrow> thrown option) \<Rightarrow> world \<times> (thrown + unit)" where
  "restart w rd sd = boot (fresh_process (storage w)) (map (entry_of rd sd) (storage w))"

text \<open>Nothing fails, and a file that is read and whose message is delivered.\<close>

definition no_failure :: "number \<Rightarrow> thrown option" where
  "no_failure k = None"


section \<open>Commands\<close>

text \<open>
  A command handler runs on the context \<open>c\<close> of its request, after the middleware has
  called \<open>ctx.initialize()\<close>. Assignments to \<open>ctx.session\<close> in a handler go to the
  session object directly, not through the proxy.
\<close>

definition initialize :: "world \<Rightarrow> nat \<Rightarrow> world \<times> (thrown + unit)" where
  "initialize w c =
     (case create w c of
        (w1, Inl t) \<Rightarrow> (w1, Inl t)
      | (w1, Inr n) \<Rightarrow>
          (w1\<lparr>ctxs := (ctxs w1)(c := (ctxs w1 c)\<lparr>notifier_ref := Some n\<rparr>)\<rparr>, Inr ()))"

text \<open>The getter \<open>ctx.notifier\<close>.\<close>

definition ctx_notifier :: "world \<Rightarrow> nat \<Rightarrow> thrown + nat" where
  "ctx_notifier w c =
     (case notifier_ref (ctxs w c) of
        None \<Rightarrow> Inl (Exn (InvalidError ''notifier''))
      | Some n \<Rightarrow> Inr n)"

definition ctx_set_session :: "world \<Rightarrow> nat \<Rightarrow> (NotifierState \<Rightarrow> NotifierState) \<Rightarrow> world" where
  "ctx_set_session w c f = w\<lparr>ctxs := (ctxs w)(c := (ctxs w c)\<lparr>session := f (session (ctxs w c))\<rparr>)\<rparr>"

definition set_interval :: "number \<Rightarrow> NotifierState \<Rightarrow> NotifierState" where
  "set_interval m s = s\<lparr>options := (options s)\<lparr>interval := m\<rparr>\<rparr>"

definition set_rooms_count :: "int \<Rightarrow> NotifierState \<Rightarrow> NotifierState" where
  "set_rooms_count i s = s\<lparr>count := (count s)\<lparr>rooms_count := i\<rparr>\<rparr>"

text \<open>\<open>bot.command(['interval'])\<close>, where \<open>m\<close> is \<open>Number(ctx.match)\<close>.\<close>

definition interval_command :: "world \<Rightarrow> nat \<Rightarrow> number \<Rightarrow> world \<times> (thrown + unit)" where
  "interval_command w c m =
     (if isNaN m \<and> gt0 m
      then (w, Inl (Exn (Error ''Interval must be a non negative number > 0'')))
      else (reply (ctx_set_session w c (set_interval m)) c ''Interval successfully set'', Inr ()))"

text \<open>\<open>bot.command(['check'])\<close>.\<close>

definition check_command :: "world \<Rightarrow> nat \<Rightarrow> fetch_outcome \<Rightarrow> world \<times> (thrown + unit)" where
  "check_command w c net =
     (case ctx_notifier w c of
        Inl t \<Rightarrow> (w, Inl t)
      | Inr n \<Rightarrow>
          (case call_getNotificationCount w n net of
             (w0, Inl t) \<Rightarrow> (w0, Inl t)
           | (w0, Inr cnt) \<Rightarrow>
               (handleNotificationCount
                  (ctx_set_session w0 c (set_rooms_count (rooms_count cnt))) c cnt True,
                Inr ())))"

text \<open>\<open>bot.command(['poll'])\<close> and \<open>bot.command(['stop'])\<close>.\<close>

definition poll_command :: "world \<Rightarrow> nat \<Rightarrow> world \<times> (thrown + unit)" where
  "poll_command w c =
     (case ctx_notifier w c of
        Inl t \<Rightarrow> (w, Inl t)
      | Inr n \<Rightarrow> (startPollingNotifications w n False, Inr ()))"

definition stop_command :: "world \<Rightarrow> nat \<Rightarrow> world \<times> (thrown + unit)" where
  "stop_command w c =
     (case ctx_notifier w c of
        Inl t \<Rightarrow> (w, Inl t)
      | Inr n \<Rightarrow> (stopPollingNotifications w n True, Inr ()))"

section \<open>The reactive state handle\<close>

text \<open>
  \<open>sessionProxy\<close> is generic in the object it wraps (\<open>Record<string, unknown>\<close>),
  so the object is a tree of JavaScript values. Properties are kept in insertion order.
\<close>

datatype jsval =
    JUndefined
  | JNull
  | JBool bool
  | JNum number
  | JStr string
  | JObj "(string \<times> jsval) list"

text \<open>
  An object inside the wrapped one is known by the property names that lead to it.
  \<open>resolve v ps\<close> follows them; \<open>assign v ps p x\<close> is \<open>Reflect.set(target, p, x)\<close>
  on the object that \<open>ps\<close> leads to, seen from the outermost object (the objects
  are shared, so the outermost one sees the assignment).
\<close>

fun resolve :: "jsval \<Rightarrow> string list \<Rightarrow> jsval option" where
  "resolve v [] = Some v"
| "resolve v (q # ps) =
     (case v of
        JObj fs \<Rightarrow> (case map_of fs q of Some v' \<Rightarrow> resolve v' ps | None \<Rightarrow> None)
      | _ \<Rightarrow> None)"

fun assign :: "jsval \<Rightarrow> string list \<Rightarrow> string \<Rightarrow> jsval \<Rightarrow> jsval" where
  "assign v [] p x =
     (case v of JObj fs \<Rightarrow> JObj (AList.update p x fs) | _ \<Rightarrow> v)"
| "assign v (q # ps) p x =
     (case v of
        JObj fs \<Rightarrow>
          (case map_of fs q of
             Some v' \<Rightarrow> JObj (AList.update q (assign v' ps p x) fs)
           | None \<Rightarrow> v)
      | _ \<Rightarrow> v)"

text \<open>\<open>v instanceof Object\<close>, for the values above.\<close>

fun instanceof_Object :: "jsval \<Rightarrow> bool" where
  "instanceof_Object (JObj fs) = True"
| "instanceof_Object _ = False"

text \<open>
  The wrapped session of one context with its store: \<open>wrapped\<close> is \<open>ctx.session\<close>,
  \<open>owner_chat\<close> is \<open>ctx.chatId\<close>, \<open>disk\<close> the store and \<open>calls\<close> the number of
  times the callback has run.
\<close>

record session_heap =
  wrapped :: jsval
  owner_chat :: "number option"
  disk :: "(number \<times> jsval) list"
  calls :: nat

text \<open>The callback that \<open>getSession\<close> passes as \<open>trigger\<close>.\<close>

definition persist :: "session_heap \<Rightarrow> session_heap" where
  "persist h =
     (let h1 = h\<lparr>calls := Suc (calls h)\<rparr>
      in case owner_chat h1 of
           None \<Rightarrow> h1
         | Some k \<Rightarrow>
             if falsy_number (Some k) then h1
             else h1\<lparr>disk := AList.update k (wrapped h1) (disk h1)\<rparr>)"

text \<open>
  What a property read on a proxy yields: a proxy of the object read (known by its
  path), or the plain value.
\<close>

datatype got = Handle "string list" | Plain jsval

text \<open>
  The traps of \<open>sessionProxy(obj, trigger)\<close> for the proxy whose target is the object
  at \<open>ps\<close>: \<open>get\<close> wraps an object with the same trigger and returns anything else as
  it is; \<open>set\<close> assigns and then calls the trigger.
\<close>

definition proxy_get ::
  "(session_heap \<Rightarrow> session_heap) \<Rightarrow> string list \<Rightarrow> string \<Rightarrow> session_heap \<Rightarrow> got \<times> session_heap" where
  "proxy_get trig ps p h =
     (case resolve (wrapped h) (ps @ [p]) of
        Some v \<Rightarrow> if instanceof_Object v then (Handle (ps @ [p]), h) else (Plain v, h)
      | None \<Rightarrow> (Plain JUndefined, h))"

definition proxy_set ::
  "(session_heap \<Rightarrow> session_heap) \<Rightarrow> string list \<Rightarrow> string \<Rightarrow> jsval \<Rightarrow> session_heap \<Rightarrow> session_heap" where
  "proxy_set trig ps p x h = trig (h\<lparr>wrapped := assign (wrapped h) ps p x\<rparr>)"

text \<open>
  An access through the handle returned by \<open>getSession()\<close>: the read
  \<open>session.p1.\<dots>.pn\<close> or the write \<open>session.p1.\<dots>.pn.p = x\<close>. \<open>walk\<close> reads
  along a path from a proxy; it yields nothing when a property of a value that is not
  an object is asked for, where no proxy is involved any more.
\<close>

datatype access = ReadPath "string list" | WritePath "string list" string jsval

fun walk ::
  "(session_heap \<Rightarrow> session_heap) \<Rightarrow> string list \<Rightarrow> string list \<Rightarrow> session_heap \<Rightarrow> got option \<times> session_heap" where
  "walk trig ps [] h = (Some (Handle ps), h)"
| "walk trig ps (q # qs) h =
     (case proxy_get trig ps q h of
        (Handle ps', h') \<Rightarrow> walk trig ps' qs h'
      | (Plain v, h') \<Rightarrow> (if qs = [] then Some (Plain v) else None, h'))"

fun perform :: "(session_heap \<Rightarrow> session_heap) \<Rightarrow> access \<Rightarrow> session_heap \<Rightarrow> session_heap" where
  "perform trig (ReadPath qs) h = snd (walk trig [] qs h)"
| "perform trig (WritePath qs p x) h =
     (case walk trig [] qs h of
        (Some (Handle ps), h') \<Rightarrow> proxy_set trig ps p x h'
      | (_, h') \<Rightarrow> h')"

fun is_write :: "access \<Rightarrow> bool" where
  "is_write (WritePath qs p x) = True"
| "is_write (ReadPath qs) = False"

text \<open>The store's record for the owning chat equals the session in memory.\<close>

definition synced :: "session_heap \<Rightarrow> bool" where
  "synced h = (case owner_chat h of None \<Rightarrow> False | Some k \<Rightarrow> map_of (disk h) k = Some (wrapped h))"

text \<open>The write reaches an object: the path read before the assignment ends in a proxy.\<close>

definition reaches :: "session_heap \<Rightarrow> access \<Rightarrow> bool" where
  "reaches h a =
     (case a of
        ReadPath qs \<Rightarrow> False
      | WritePath qs p x \<Rightarrow>
          (case resolve (wrapped h) qs of Some v \<Rightarrow> instanceof_Object v | None \<Rightarrow> False))"

text \<open>
  A sequence of accesses through the handle, with the callback of \<open>getSession\<close>, and
  the number of its writes that reach an object at the moment they are made.
\<close>

fun run_accesses :: "access list \<Rightarrow> session_heap \<Rightarrow> session_heap" where
  "run_accesses [] h = h"
| "run_accesses (a # as) h = run_accesses as (perform persist a h)"

fun writes_through :: "access list \<Rightarrow> session_heap \<Rightarrow> nat" where
  "writes_through [] h = 0"
| "writes_through (a # as) h =
     (if reaches h a then 1 else 0) + writes_through as (perform persist a h)"

text \<open>The session record of the notifier as the tree of values that the proxy wraps.\<close>

definition tree_of_string :: "string option \<Rightarrow> jsval" where
  "tree_of_string so = (case so of None \<Rightarrow> JNull | Some t \<Rightarrow> JStr t)"

definition tree_of_count :: "NotificationsCount \<Rightarrow> jsval" where
  "tree_of_count d = JObj [(''rooms_count'', JNum (Num (of_int (rooms_count d))))]"

definition tree_of :: "NotifierState \<Rightarrow> jsval" where
  "tree_of s =
     JObj [(''count'', tree_of_count (count s)),
           (''options'',
            JObj [(''token'', tree_of_string (token (options s))),
                  (''referer'', tree_of_string (referer (options s))),
                  (''interval'', JNum (interval (options s))),
                  (''allowZeroMessages'', JBool (allowZeroMessages (options s))),
                  (''polling'', JBool (polling (options s))),
                  (''pollingOnBoot'', JBool (pollingOnBoot (options s)))])]"

text \<open>
  A session as \<open>createNotifierState\<close> builds it, held by a context of chat 7 with an
  empty store.
\<close>

definition default_tree :: jsval where
  "default_tree =
     JObj [(''count'', JObj [(''rooms_count'', JNum (Num 0))]),
           (''options'',
            JObj [(''token'', JNull), (''referer'', JNull), (''interval'', JNum (Num 60000)),
                  (''allowZeroMessages'', JBool False), (''polling'', JBool False),
                  (''pollingOnBoot'', JBool False)])]"

definition default_heap :: session_heap where
  "default_heap = \<lparr> wrapped = default_tree, owner_chat = Some (Num 7), disk = [], calls = 0 \<rparr>"

text \<open>
  Reading \<open>session.options.interval\<close>, assigning \<open>session.options.interval = 5000\<close>
  and reading \<open>session.count\<close>.
\<close>

definition set_interval_5000 :: access where
  "set_interval_5000 = WritePath [''options''] ''interval'' (JNum (Num 5000))"

definition sample_accesses :: "access list" where
  "sample_accesses =
     [ReadPath [''options'', ''interval''], set_interval_5000, ReadPath [''count'']]"

section \<open>Auxiliary notions\<close>

text \<open>
  The store after the trigger of a context with chat id \<open>ko\<close> has written the
  session \<open>s\<close>.
\<close>

definition stored ::
  "number option \<Rightarrow> NotifierState \<Rightarrow> (number \<times> NotifierState) list \<Rightarrow> (number \<times> NotifierState) list" where
  "stored ko s st =
     (case ko of
        None \<Rightarrow> st
      | Some k \<Rightarrow> if falsy_number (Some k) then st else AList.update k s st)"

text \<open>
  The session that \<open>stopPollingNotifications(commit)\<close> leaves, and the one that a
  start that goes ahead leaves.
\<close>

definition stopped :: "bool \<Rightarrow> NotifierState \<Rightarrow> NotifierState" where
  "stopped commit s = set_polling False (if commit then set_pollingOnBoot False s else s)"

definition started :: "NotifierState \<Rightarrow> NotifierState" where
  "started s = set_pollingOnBoot True (set_polling True s)"






text \<open>
  One iteration of the boot loop over a readable record of an unregistered chat: what
  \<open>create\<close> makes of it, and the whole iteration when the message is delivered.
\<close>

definition made :: "world \<Rightarrow> number \<Rightarrow> NotifierState \<Rightarrow> world" where
  "made w k s =
     updateSession
       (if pollingOnBoot (options s)
        then sendMessage
               (startPollingNotifications
                  (register_notifier (new_ctx w (Some k) s) k (next_ctx w)) (next_notifier w) True)
               k ''Continue polling after reboot''
        else register_notifier (new_ctx w (Some k) s) k (next_ctx w))
       (next_notifier w) (next_ctx w)"




section \<open>Sample inputs\<close>

text \<open>A session with referer and token set, and the same one before the token is set.\<close>

definition configured :: NotifierState where
  "configured =
     \<lparr> count = \<lparr> rooms_count = 0 \<rparr>,
       options = \<lparr> token = Some ''secret'', referer = Some ''https://org.ktalk.ru'',
                   interval = Num 60000, allowZeroMessages = False,
                   polling = True, pollingOnBoot = True \<rparr> \<rparr>"

definition without_token :: NotifierState where
  "without_token = configured\<lparr>options := (options configured)\<lparr>token := None\<rparr>\<rparr>"

definition three_rooms :: fetch_outcome where
  "three_rooms = Response 200 (Json \<lparr> rooms_count = 3 \<rparr>)"

text \<open>
  The process right after booting over a store that holds this one session for chat 7:
  the notifier is number 0, bound to context 0, and polling.
\<close>

definition booted :: world where
  "booted = fst (restart (fresh_process [(Num 7, configured)]) no_failure no_failure)"

text \<open>The same process after a poll that fetched three rooms.\<close>

definition polled_three :: world where
  "polled_three = poll booted 0 three_rooms"

text \<open>The request that a notifier reading \<open>configured\<close> issues.\<close>

definition sample_request :: request where
  "sample_request =
     \<lparr> url = ''https://chat.ktalk.ru/_matrix/client/strangler/api/v1/talk_notifications'',
       hdr_Referer = ''https://org.ktalk.ru'',
       hdr_Origin = ''https://org.ktalk.ru'',
       hdr_Talk_Token = ''secret'' \<rparr>"

definition server_error :: fetch_outcome where
  "server_error = Response 500 (Json \<lparr> rooms_count = 3 \<rparr>)"

text \<open>
  The booted process while it handles a request of chat 7: the session middleware has
  loaded the record into a new context (number 1), and then \<open>ctx.initialize()\<close> has
  run.
\<close>

definition arriving :: world where
  "arriving = new_ctx booted (Some (Num 7)) configured"

definition in_request :: world where
  "in_request = fst (initialize arriving 1)"

text \<open>The process after the \<open>check\<close> command of that request, with three rooms reported.\<close>

definition checked :: world where
  "checked = fst (check_command in_request 1 three_rooms)"

text \<open>
  Files of a store as the boot loop meets them: a readable record of chat 7, a record
  of chat 5 that \<open>storage.read\<close> cannot parse, and a readable record of chat 9.
\<close>

definition good_seven :: boot_entry where
  "good_seven = \<lparr> key_number = Num 7, read_result = ReadOk configured, send_result = None \<rparr>"

definition bad_five :: boot_entry where
  "bad_five =
     \<lparr> key_number = Num 5,
       read_result = ReadFail (Exn (PlatformError ''SyntaxError'' ''Unexpected end of JSON input'')),
       send_result = None \<rparr>"

definition good_nine :: boot_entry where
  "good_nine = \<lparr> key_number = Num 9, read_result = ReadOk configured, send_result = None \<rparr>"




text \<open>The events of a log that are \<open>notification-count:changed\<close>, and those that are \<open>error\<close>.\<close>

fun is_changed :: "nat \<times> event \<Rightarrow> bool" where
  "is_changed (n, NotificationCountChanged d) = True"
| "is_changed _ = False"

fun is_count :: "nat \<times> event \<Rightarrow> bool" where
  "is_count (n, NotificationCount d) = True"
| "is_count _ = False"

fun is_error :: "nat \<times> event \<Rightarrow> bool" where
  "is_error (n, ErrorEvent e) = True"
| "is_error _ = False"

section \<open>What each operation does to each part of the process\<close>

lemma record_emit_fields [simp]:
  "ctxs (record_emit w n ev) = ctxs w"
  "next_ctx (record_emit w n ev) = next_ctx w"
  "notifiers (record_emit w n ev) = notifiers w"
  "next_notifier (record_emit w n ev) = next_notifier w"
  "registry (record_emit w n ev) = registry w"
  "storage (record_emit w n ev) = storage w"
  "sent (record_emit w n ev) = sent w"
  "requests (record_emit w n ev) = requests w"
  "emitted (record_emit w n ev) = emitted w @ [(n, ev)]"
  "scheduled (record_emit w n ev) = scheduled w"
  by (simp_all add: record_emit_def)

lemma reply_fields [simp]:
  "ctxs (reply w c t) = ctxs w"
  "next_ctx (reply w c t) = next_ctx w"
  "notifiers (reply w c t) = notifiers w"
  "next_notifier (reply w c t) = next_notifier w"
  "registry (reply w c t) = registry w"
  "storage (reply w c t) = storage w"
  "sent (reply w c t) = sent w @ [Reply c t]"
  "requests (reply w c t) = requests w"
  "emitted (reply w c t) = emitted w"
  "scheduled (reply w c t) = scheduled w"
  by (simp_all add: reply_def)

lemma sendMessage_fields [simp]:
  "ctxs (sendMessage w k t) = ctxs w"
  "next_ctx (sendMessage w k t) = next_ctx w"
  "notifiers (sendMessage w k t) = notifiers w"
  "next_notifier (sendMessage w k t) = next_notifier w"
  "registry (sendMessage w k t) = registry w"
  "storage (sendMessage w k t) = storage w"
  "sent (sendMessage w k t) = sent w @ [SendMessage k t]"
  "requests (sendMessage w k t) = requests w"
  "emitted (sendMessage w k t) = emitted w"
  "scheduled (sendMessage w k t) = scheduled w"
  by (simp_all add: sendMessage_def)

lemma updateSession_fields [simp]:
  "ctxs (updateSession w n c) = ctxs w"
  "next_ctx (updateSession w n c) = next_ctx w"
  "notifiers (updateSession w n c) = (notifiers w)(n := (notifiers w n)\<lparr>getSession := c\<rparr>)"
  "next_notifier (updateSession w n c) = next_notifier w"
  "registry (updateSession w n c) = registry w"
  "storage (updateSession w n c) = storage w"
  "sent (updateSession w n c) = sent w"
  "requests (updateSession w n c) = requests w"
  "emitted (updateSession w n c) = emitted w"
  "scheduled (updateSession w n c) = scheduled w"
  by (simp_all add: updateSession_def)

lemma set_session_fields [simp]:
  "ctxs (set_session w n f) =
     (ctxs w)(getSession (notifiers w n) :=
        (ctxs w (getSession (notifiers w n)))\<lparr>session := f (this_session w n)\<rparr>)"
  "next_ctx (set_session w n f) = next_ctx w"
  "notifiers (set_session w n f) = notifiers w"
  "next_notifier (set_session w n f) = next_notifier w"
  "registry (set_session w n f) = registry w"
  "storage (set_session w n f) =
     stored (chatId (ctxs w (getSession (notifiers w n)))) (f (this_session w n)) (storage w)"
  "sent (set_session w n f) = sent w"
  "requests (set_session w n f) = requests w"
  "emitted (set_session w n f) = emitted w"
  "scheduled (set_session w n f) = scheduled w"
  by (simp_all add: set_session_def trigger_def Let_def this_session_def stored_def split: option.splits)

lemma this_session_simps [simp]:
  "this_session (set_session w n f) n = f (this_session w n)"
  "this_session (record_emit w n ev) m = this_session w m"
  "this_session (reply w c t) m = this_session w m"
  "this_session (sendMessage w k t) m = this_session w m"
  by (simp_all add: this_session_def)


lemma stored_stored [simp]: "stored ko s2 (stored ko s1 st) = stored ko s2 st"
  by (simp add: stored_def split: option.splits)

lemma set_polling_idem [simp]:
  "set_polling b (set_polling b' s) = set_polling b s"
  by (simp add: set_polling_def)

lemma setter_fields [simp]:
  "count (set_polling b s) = count s"
  "count (set_pollingOnBoot b s) = count s"
  "polling (options (set_polling b s)) = b"
  "pollingOnBoot (options (set_polling b s)) = pollingOnBoot (options s)"
  "polling (options (set_pollingOnBoot b s)) = polling (options s)"
  "pollingOnBoot (options (set_pollingOnBoot b s)) = b"
  "count (set_count d s) = d"
  "options (set_count d s) = options s"
  by (simp_all add: set_polling_def set_pollingOnBoot_def set_count_def)

text \<open>Running the pending \<open>once\<close> listeners of \<open>poll\<close> on \<open>false\<close>.\<close>

lemma once_listeners_run:
  "((\<lambda>v. set_session v n (set_polling False)) ^^ k) w =
     (if k = 0 then w else set_session w n (set_polling False))"
proof (induction k)
  case 0
  show ?case by simp
next
  case (Suc k)
  have twice: "set_session (set_session w n (set_polling False)) n (set_polling False)
                 = set_session w n (set_polling False)"
    by (rule world.equality) (simp_all add: this_session_def)
  show ?case using Suc by (simp add: twice)
qed

lemma emit_poll_fields [simp]:
  "ctxs (emit_poll w n b) =
     (if b \<or> once_poll (notifiers w n) = 0 then ctxs w
      else (ctxs w)(getSession (notifiers w n) :=
             (ctxs w (getSession (notifiers w n)))\<lparr>session := set_polling False (this_session w n)\<rparr>))"
  "next_ctx (emit_poll w n b) = next_ctx w"
  "notifiers (emit_poll w n b) = (notifiers w)(n := (notifiers w n)\<lparr>once_poll := 0\<rparr>)"
  "next_notifier (emit_poll w n b) = next_notifier w"
  "registry (emit_poll w n b) = registry w"
  "storage (emit_poll w n b) =
     (if b \<or> once_poll (notifiers w n) = 0 then storage w
      else stored (chatId (ctxs w (getSession (notifiers w n))))
             (set_polling False (this_session w n)) (storage w))"
  "sent (emit_poll w n b) = sent w"
  "requests (emit_poll w n b) = requests w"
  "emitted (emit_poll w n b) = emitted w @ [(n, Poll b)]"
  "scheduled (emit_poll w n b) = scheduled w"
  by (simp_all add: emit_poll_def Let_def once_listeners_run this_session_def)


lemma stop_fields [simp]:
  "ctxs (stopPollingNotifications w n commit) =
     (ctxs w)(getSession (notifiers w n) :=
        (ctxs w (getSession (notifiers w n)))\<lparr>session := stopped commit (this_session w n)\<rparr>)"
  "next_ctx (stopPollingNotifications w n commit) = next_ctx w"
  "notifiers (stopPollingNotifications w n commit) =
     (notifiers w)(n := (notifiers w n)\<lparr>controller := Suc (controller (notifiers w n)), once_poll := 0\<rparr>)"
  "next_notifier (stopPollingNotifications w n commit) = next_notifier w"
  "registry (stopPollingNotifications w n commit) = registry w"
  "storage (stopPollingNotifications w n commit) =
     stored (chatId (ctxs w (getSession (notifiers w n)))) (stopped commit (this_session w n)) (storage w)"
  "sent (stopPollingNotifications w n commit) = sent w"
  "requests (stopPollingNotifications w n commit) = requests w"
  "emitted (stopPollingNotifications w n commit) = emitted w @ [(n, Poll False)]"
  "scheduled (stopPollingNotifications w n commit) = scheduled w"
  by (auto simp add: stopPollingNotifications_def Let_def this_session_def stopped_def)

lemma start_fields:
  assumes "\<not> polling (options (this_session w n)) \<or> force"
  shows
  "ctxs (startPollingNotifications w n force) =
     (ctxs w)(getSession (notifiers w n) :=
        (ctxs w (getSession (notifiers w n)))\<lparr>session := started (this_session w n)\<rparr>)"
  "next_ctx (startPollingNotifications w n force) = next_ctx w"
  "notifiers (startPollingNotifications w n force) =
     (notifiers w)(n := (notifiers w n)\<lparr>controller := Suc (controller (notifiers w n)), once_poll := Suc 0\<rparr>)"
  "next_notifier (startPollingNotifications w n force) = next_notifier w"
  "registry (startPollingNotifications w n force) = registry w"
  "storage (startPollingNotifications w n force) =
     stored (chatId (ctxs w (getSession (notifiers w n)))) (started (this_session w n)) (storage w)"
  "sent (startPollingNotifications w n force) = sent w"
  "requests (startPollingNotifications w n force) = requests w"
  "emitted (startPollingNotifications w n force) = emitted w @ [(n, Poll True)]"
  "scheduled (startPollingNotifications w n force) = scheduled w @ [(n, Now)]"
  using assms
  by (auto simp add: startPollingNotifications_def Let_def this_session_def started_def)

lemma start_noop:
  "polling (options (this_session w n)) \<Longrightarrow> startPollingNotifications w n False = w"
  by (simp add: startPollingNotifications_def)


lemma register_fields [simp]:
  "ctxs (register_notifier w k c) = ctxs w"
  "next_ctx (register_notifier w k c) = next_ctx w"
  "notifiers (register_notifier w k c) = (notifiers w)(next_notifier w := new_notifier c)"
  "next_notifier (register_notifier w k c) = Suc (next_notifier w)"
  "registry (register_notifier w k c) = (registry w)(k \<mapsto> next_notifier w)"
  "storage (register_notifier w k c) = storage w"
  "sent (register_notifier w k c) = sent w"
  "requests (register_notifier w k c) = requests w"
  "emitted (register_notifier w k c) = emitted w"
  "scheduled (register_notifier w k c) = scheduled w"
  by (simp_all add: register_notifier_def)

lemma new_notifier_fields [simp]:
  "getSession (new_notifier c) = c"
  "controller (new_notifier c) = 0"
  "relay (new_notifier c) = c"
  "once_poll (new_notifier c) = 0"
  by (simp_all add: new_notifier_def)

lemma create_invalid:
  "falsy_number (chatId (ctxs w c)) \<Longrightarrow> create w c = (w, Inl (Exn (InvalidError ''chat id'')))"
  by (cases "chatId (ctxs w c)") (simp_all add: create_def)

lemma create_existing:
  "chatId (ctxs w c) = Some k \<Longrightarrow> \<not> falsy_number (Some k) \<Longrightarrow> registry w k = Some n \<Longrightarrow>
   create w c = (updateSession w n c, Inr n)"
  by (simp add: create_def)

lemma create_new:
  "chatId (ctxs w c) = Some k \<Longrightarrow> \<not> falsy_number (Some k) \<Longrightarrow> registry w k = None \<Longrightarrow>
   create w c =
     (updateSession
        (if pollingOnBoot (options (session (ctxs w c)))
         then sendMessage (startPollingNotifications (register_notifier w k c) (next_notifier w) True) k
                ''Continue polling after reboot''
         else register_notifier w k c)
        (next_notifier w) c,
      Inr (next_notifier w))"
  by (simp add: create_def Let_def)

lemma fresh_fields [simp]:
  "ctxs (fresh_process st) = (\<lambda>_. \<lparr> chatId = None, session = DEFAULT_NOTIFIER_STATE, notifier_ref = None \<rparr>)"
  "next_ctx (fresh_process st) = 0"
  "notifiers (fresh_process st) = (\<lambda>_. new_notifier 0)"
  "next_notifier (fresh_process st) = 0"
  "registry (fresh_process st) = Map.empty"
  "storage (fresh_process st) = st"
  "sent (fresh_process st) = []"
  "requests (fresh_process st) = []"
  "emitted (fresh_process st) = []"
  "scheduled (fresh_process st) = []"
  by (simp_all add: fresh_process_def)

lemma new_ctx_fields [simp]:
  "ctxs (new_ctx w k s) = (ctxs w)(next_ctx w := \<lparr> chatId = k, session = s, notifier_ref = None \<rparr>)"
  "next_ctx (new_ctx w k s) = Suc (next_ctx w)"
  "notifiers (new_ctx w k s) = notifiers w"
  "next_notifier (new_ctx w k s) = next_notifier w"
  "registry (new_ctx w k s) = registry w"
  "storage (new_ctx w k s) = storage w"
  "sent (new_ctx w k s) = sent w"
  "requests (new_ctx w k s) = requests w"
  "emitted (new_ctx w k s) = emitted w"
  "scheduled (new_ctx w k s) = scheduled w"
  by (simp_all add: new_ctx_def)

lemma configured_fields [simp]:
  "count configured = \<lparr> rooms_count = 0 \<rparr>"
  "options configured = \<lparr> token = Some ''secret'', referer = Some ''https://org.ktalk.ru'',
                   interval = Num 60000, allowZeroMessages = False,
                   polling = True, pollingOnBoot = True \<rparr>"
  by (simp_all add: configured_def)

lemma booted_unfold:
  "booted = sendMessage (fst (create (new_ctx (fresh_process [(Num 7, configured)]) (Some (Num 7)) configured) 0)) (Num 7) ''Bot booted''"
  by (simp add: booted_def restart_def entry_of_def no_failure_def create_new)

lemma booted_fields:
  "ctxs booted 0 = \<lparr> chatId = Some (Num 7), session = configured, notifier_ref = None \<rparr>"
  "notifiers booted 0 = \<lparr> getSession = 0, controller = 1, relay = 0, once_poll = 1 \<rparr>"
  "registry booted (Num 7) = Some 0"
  "storage booted = [(Num 7, configured)]"
  "sent booted = [SendMessage (Num 7) ''Continue polling after reboot'', SendMessage (Num 7) ''Bot booted'']"
  "emitted booted = [(0, Poll True)]"
  "scheduled booted = [(0, Now)]"
  "requests booted = []"
  "next_ctx booted = 1"
  "next_notifier booted = 1"
  by (simp_all add: booted_unfold create_new start_fields this_session_def started_def stored_def
        set_polling_def set_pollingOnBoot_def configured_def new_notifier_def)

lemma handle_fields [simp]:
  "ctxs (handleNotificationCount w c d z) = ctxs w"
  "next_ctx (handleNotificationCount w c d z) = next_ctx w"
  "notifiers (handleNotificationCount w c d z) = notifiers w"
  "next_notifier (handleNotificationCount w c d z) = next_notifier w"
  "registry (handleNotificationCount w c d z) = registry w"
  "storage (handleNotificationCount w c d z) = storage w"
  "requests (handleNotificationCount w c d z) = requests w"
  "emitted (handleNotificationCount w c d z) = emitted w"
  "scheduled (handleNotificationCount w c d z) = scheduled w"
  by (simp_all add: handleNotificationCount_def)

lemma handle_sent:
  "sent (handleNotificationCount w c d z) =
     sent w @ (if \<not> z \<and> \<not> allowZeroMessages (options (session (ctxs w c))) \<and> rooms_count d = 0
               then [] else [Reply c (show_int (rooms_count d) @ '' rooms have new messages'')])"
  by (simp add: handleNotificationCount_def)

lemma emit_count_fields [simp]:
  "ctxs (emit_notification_count w n d) = ctxs w"
  "next_ctx (emit_notification_count w n d) = next_ctx w"
  "notifiers (emit_notification_count w n d) = notifiers w"
  "next_notifier (emit_notification_count w n d) = next_notifier w"
  "registry (emit_notification_count w n d) = registry w"
  "storage (emit_notification_count w n d) = storage w"
  "requests (emit_notification_count w n d) = requests w"
  "emitted (emit_notification_count w n d) = emitted w @ [(n, NotificationCount d)]"
  "scheduled (emit_notification_count w n d) = scheduled w"
  "sent (emit_notification_count w n d) =
     sent w @ (if \<not> allowZeroMessages (options (session (ctxs w (relay (notifiers w n))))) \<and> rooms_count d = 0
               then [] else [Reply (relay (notifiers w n)) (show_int (rooms_count d) @ '' rooms have new messages'')])"
  by (simp_all add: emit_notification_count_def Let_def handle_sent)

lemma emit_changed_fields [simp]:
  "ctxs (emit_notification_count_changed w n d) = ctxs w"
  "next_ctx (emit_notification_count_changed w n d) = next_ctx w"
  "notifiers (emit_notification_count_changed w n d) = notifiers w"
  "next_notifier (emit_notification_count_changed w n d) = next_notifier w"
  "registry (emit_notification_count_changed w n d) = registry w"
  "storage (emit_notification_count_changed w n d) = storage w"
  "requests (emit_notification_count_changed w n d) = requests w"
  "emitted (emit_notification_count_changed w n d) =
     emitted w @ [(n, NotificationCountChanged d), (n, StateChanged (this_session w n))]"
  "scheduled (emit_notification_count_changed w n d) = scheduled w"
  "sent (emit_notification_count_changed w n d) = sent w"
  by (simp_all add: emit_notification_count_changed_def Let_def)

lemma emit_error_fields [simp]:
  "ctxs (emit_error w n e) =
     (ctxs w)(getSession (notifiers w n) :=
        (ctxs w (getSession (notifiers w n)))\<lparr>session := stopped False (this_session w n)\<rparr>)"
  "next_ctx (emit_error w n e) = next_ctx w"
  "notifiers (emit_error w n e) =
     (notifiers w)(n := (notifiers w n)\<lparr>controller := Suc (controller (notifiers w n)), once_poll := 0\<rparr>)"
  "next_notifier (emit_error w n e) = next_notifier w"
  "registry (emit_error w n e) = registry w"
  "storage (emit_error w n e) =
     stored (chatId (ctxs w (getSession (notifiers w n)))) (stopped False (this_session w n)) (storage w)"
  "requests (emit_error w n e) = requests w"
  "emitted (emit_error w n e) = emitted w @ [(n, ErrorEvent e), (n, Poll False)]"
  "scheduled (emit_error w n e) = scheduled w"
  "sent (emit_error w n e) = sent w @ [Reply (relay (notifiers w n)) (formatError e)]"
  by (simp_all add: emit_error_def Let_def this_session_def)

lemma this_session_requests [simp]:
  "this_session (w\<lparr>requests := rs\<rparr>) n = this_session w n"
  by (simp add: this_session_def)

text \<open>The two ways a run of \<open>poll\<close> that finds the notifier polling goes on.\<close>

lemma poll_failure:
  assumes "polling (options (this_session w n))"
      and "getNotificationCount (this_session w n) net = (rs, Inl t)"
  shows "poll w n net = emit_error (w\<lparr>requests := requests w @ rs\<rparr>) n (ensureError t)"
  using assms by (simp add: poll_def call_getNotificationCount_def)

lemma poll_success:
  assumes "polling (options (this_session w n))"
      and "getNotificationCount (this_session w n) net = (rs, Inr d)"
  shows "poll w n net =
           (let w1 = emit_notification_count (w\<lparr>requests := requests w @ rs\<rparr>) n d;
                w2 = (if rooms_count d \<noteq> rooms_count (count (this_session w n))
                      then emit_notification_count_changed w1 n d else w1);
                w3 = set_session w2 n (set_count d)
            in w3\<lparr>scheduled := scheduled w3 @ [(n, After (interval (options (this_session w n))))]\<rparr>)"
  using assms
  by (simp add: poll_def call_getNotificationCount_def Let_def this_session_def)

lemma poll_success_fields:
  assumes "polling (options (this_session w n))"
      and "getNotificationCount (this_session w n) net = (rs, Inr d)"
  shows
  "ctxs (poll w n net) =
     (ctxs w)(getSession (notifiers w n) :=
        (ctxs w (getSession (notifiers w n)))\<lparr>session := set_count d (this_session w n)\<rparr>)"
  "next_ctx (poll w n net) = next_ctx w"
  "notifiers (poll w n net) = notifiers w"
  "next_notifier (poll w n net) = next_notifier w"
  "registry (poll w n net) = registry w"
  "storage (poll w n net) =
     stored (chatId (ctxs w (getSession (notifiers w n)))) (set_count d (this_session w n)) (storage w)"
  "requests (poll w n net) = requests w @ rs"
  "emitted (poll w n net) =
     emitted w @ (n, NotificationCount d)
       # (if rooms_count d \<noteq> rooms_count (count (this_session w n))
          then [(n, NotificationCountChanged d), (n, StateChanged (this_session w n))] else [])"
  "scheduled (poll w n net) = scheduled w @ [(n, After (interval (options (this_session w n))))]"
  "sent (poll w n net) =
     sent w @ (if \<not> allowZeroMessages (options (session (ctxs w (relay (notifiers w n))))) \<and> rooms_count d = 0
               then [] else [Reply (relay (notifiers w n)) (show_int (rooms_count d) @ '' rooms have new messages'')])"
  by (simp_all add: poll_success [OF assms] Let_def this_session_def)

lemma poll_failure_fields:
  assumes "polling (options (this_session w n))"
      and "getNotificationCount (this_session w n) net = (rs, Inl t)"
  shows
  "ctxs (poll w n net) =
     (ctxs w)(getSession (notifiers w n) :=
        (ctxs w (getSession (notifiers w n)))\<lparr>session := stopped False (this_session w n)\<rparr>)"
  "next_ctx (poll w n net) = next_ctx w"
  "notifiers (poll w n net) =
     (notifiers w)(n := (notifiers w n)\<lparr>controller := Suc (controller (notifiers w n)), once_poll := 0\<rparr>)"
  "next_notifier (poll w n net) = next_notifier w"
  "registry (poll w n net) = registry w"
  "storage (poll w n net) =
     stored (chatId (ctxs w (getSession (notifiers w n)))) (stopped False (this_session w n)) (storage w)"
  "requests (poll w n net) = requests w @ rs"
  "emitted (poll w n net) = emitted w @ [(n, ErrorEvent (ensureError t)), (n, Poll False)]"
  "scheduled (poll w n net) = scheduled w"
  "sent (poll w n net) = sent w @ [Reply (relay (notifiers w n)) (formatError (ensureError t))]"
  by (simp_all add: poll_failure [OF assms] this_session_def)

lemma poll_idle: "\<not> polling (options (this_session w n)) \<Longrightarrow> poll w n net = w"
  by (simp add: poll_def)

section \<open>Properties of the endpoint call\<close>

text \<open>
  Claim C7. \<open>getNotificationCount\<close> called while the token is unset, or while the
  referer is unset, throws an \<open>InvalidError\<close> (the program's configuration error) and
  issues no request. A request is issued only when both are set; it is issued, once,
  exactly when both are set and not the empty string.
\<close>

theorem getNotificationCount_configuration:
  "(token (options s) = None \<or> referer (options s) = None \<longrightarrow>
      (\<exists>entity. getNotificationCount s net = ([], Inl (Exn (InvalidError entity)))))
   \<and> (fst (getNotificationCount s net) \<noteq> [] \<longrightarrow>
        token (options s) \<noteq> None \<and> referer (options s) \<noteq> None)
   \<and> (\<not> falsy_string (token (options s)) \<and> \<not> falsy_string (referer (options s)) \<longrightarrow>
        length (fst (getNotificationCount s net)) = 1)"
  by (cases "token (options s)"; cases "referer (options s)";
      simp add: getNotificationCount_def)

theorem getNotificationCount_configuration_witness:
  "token (options without_token) = None
   \<and> (\<exists>entity. getNotificationCount without_token three_rooms
                  = ([], Inl (Exn (InvalidError entity))))
   \<and> \<not> falsy_string (token (options configured))
   \<and> \<not> falsy_string (referer (options configured))
   \<and> length (fst (getNotificationCount configured three_rooms)) = 1"
proof -
  have unset: "token (options without_token) = None"
    by (simp add: without_token_def)
  have isset: "\<not> falsy_string (token (options configured))"
    "\<not> falsy_string (referer (options configured))"
    by (simp_all add: configured_def)
  from getNotificationCount_configuration [of without_token three_rooms]
       getNotificationCount_configuration [of configured three_rooms]
       unset isset
  show ?thesis by blast
qed

lemma configured_request [simp]:
  "getNotificationCount configured three_rooms = ([sample_request], Inr \<lparr> rooms_count = 3 \<rparr>)"
  "getNotificationCount (set_count d configured) three_rooms = ([sample_request], Inr \<lparr> rooms_count = 3 \<rparr>)"
  "getNotificationCount configured server_error
     = ([sample_request], Inl (Exn (Error ''Got non 200 response status'')))"
  by (simp_all add: getNotificationCount_def configured_def three_rooms_def sample_request_def
        server_error_def set_count_def BASE_ENDPOINT_def NOTIFICATION_COUNT_PATH_def)

lemma booted_session [simp]:
  "this_session booted 0 = configured"
  "getSession (notifiers booted 0) = 0"
  "relay (notifiers booted 0) = 0"
  "chatId (ctxs booted 0) = Some (Num 7)"
  "session (ctxs booted 0) = configured"
  by (simp_all add: this_session_def booted_fields)

lemma booted_polls:
  "polling (options (this_session booted 0))"
  by simp

lemma booted_fetch:
  "getNotificationCount (this_session booted 0) three_rooms
     = ([sample_request], Inr \<lparr> rooms_count = 3 \<rparr>)"
  "getNotificationCount (this_session booted 0) server_error
     = ([sample_request], Inl (Exn (Error ''Got non 200 response status'')))"
  by simp_all

lemma polled_three_fields:
  "this_session polled_three 0 = set_count \<lparr> rooms_count = 3 \<rparr> configured"
  "getSession (notifiers polled_three 0) = 0"
  "relay (notifiers polled_three 0) = 0"
  "chatId (ctxs polled_three 0) = Some (Num 7)"
  "session (ctxs polled_three 0) = set_count \<lparr> rooms_count = 3 \<rparr> configured"
  "sent polled_three = sent booted @ [Reply 0 ''3 rooms have new messages'']"
  "emitted polled_three = [(0, Poll True), (0, NotificationCount \<lparr> rooms_count = 3 \<rparr>),
      (0, NotificationCountChanged \<lparr> rooms_count = 3 \<rparr>), (0, StateChanged configured)]"
  "scheduled polled_three = [(0, Now), (0, After (Num 60000))]"
  "storage polled_three = [(Num 7, set_count \<lparr> rooms_count = 3 \<rparr> configured)]"
  by (simp_all add: polled_three_def this_session_def
        poll_success_fields [OF booted_polls booted_fetch(1)] booted_fields
        show_int_def digits.simps stored_def)


lemma polled_three_polls:
  "polling (options (this_session polled_three 0))"
  "getNotificationCount (this_session polled_three 0) three_rooms
     = ([sample_request], Inr \<lparr> rooms_count = 3 \<rparr>)"
  "\<not> allowZeroMessages (options (session (ctxs polled_three (relay (notifiers polled_three 0)))))"
  "rooms_count (count (this_session polled_three 0)) = 3"
  by (simp_all add: polled_three_fields)

section \<open>Properties of a poll cycle\<close>

text \<open>
  Claim C4. In a poll cycle whose fetch succeeds with \<open>d\<close>, the notifier emits
  \<open>notification-count:changed\<close> once if \<open>d.rooms_count\<close> differs from the
  \<open>rooms_count\<close> of the session's count and not at all if they are equal; afterwards
  the session's count is \<open>d\<close> in either case, in memory and (for a context with a
  chat id) in the store.
\<close>

theorem poll_success_count_changed:
  assumes "polling (options (this_session w n))"
      and "getNotificationCount (this_session w n) net = (rs, Inr d)"
  shows "filter is_changed (emitted (poll w n net))
           = filter is_changed (emitted w)
             @ (if rooms_count d \<noteq> rooms_count (count (this_session w n))
                then [(n, NotificationCountChanged d)] else [])
         \<and> count (this_session (poll w n net) n) = d
         \<and> (\<forall>k. chatId (ctxs w (getSession (notifiers w n))) = Some k \<and> \<not> falsy_number (Some k)
                \<longrightarrow> map_of (storage (poll w n net)) k = Some (this_session (poll w n net) n))"
  by (simp add: poll_success_fields [OF assms] this_session_def stored_def update_conv')

theorem poll_success_count_changed_witness:
  "polling (options (this_session booted 0))
   \<and> getNotificationCount (this_session booted 0) three_rooms
        = ([sample_request], Inr \<lparr> rooms_count = 3 \<rparr>)
   \<and> filter is_changed (emitted (poll booted 0 three_rooms))
        = [(0, NotificationCountChanged \<lparr> rooms_count = 3 \<rparr>)]
   \<and> count (this_session (poll booted 0 three_rooms) 0) = \<lparr> rooms_count = 3 \<rparr>
   \<and> map_of (storage (poll booted 0 three_rooms)) (Num 7)
        = Some (this_session (poll booted 0 three_rooms) 0)
   \<and> filter is_changed (emitted (poll polled_three 0 three_rooms))
        = filter is_changed (emitted polled_three)"
proof -
  note first = poll_success_count_changed [OF booted_polls booted_fetch(1)]
  note again = poll_success_count_changed [OF polled_three_polls(1) polled_three_polls(2)]
  have key: "chatId (ctxs booted (getSession (notifiers booted 0))) = Some (Num 7)
               \<and> \<not> falsy_number (Some (Num 7))"
    by simp
  have log: "filter is_changed (emitted booted) = []"
    by (simp add: booted_fields)
  have differs: "rooms_count \<lparr> rooms_count = 3 \<rparr> \<noteq> rooms_count (count (this_session booted 0))"
    by simp
  have same: "\<not> rooms_count \<lparr> rooms_count = 3 \<rparr> \<noteq> rooms_count (count (this_session polled_three 0))"
    by (simp add: polled_three_polls)
  from first key log differs
  have a: "filter is_changed (emitted (poll booted 0 three_rooms))
             = [(0, NotificationCountChanged \<lparr> rooms_count = 3 \<rparr>)]"
    and b: "count (this_session (poll booted 0 three_rooms) 0) = \<lparr> rooms_count = 3 \<rparr>"
    and c: "map_of (storage (poll booted 0 three_rooms)) (Num 7)
              = Some (this_session (poll booted 0 three_rooms) 0)"
    by simp_all
  from again same
  have d: "filter is_changed (emitted (poll polled_three 0 three_rooms))
             = filter is_changed (emitted polled_three)"
    by simp
  from a b c d booted_polls booted_fetch(1) show ?thesis by simp
qed

text \<open>
  Claim C10. In a poll cycle whose fetch throws \<open>t\<close>, the count of every session in
  memory is left as it was, the notifier emits \<open>error\<close> once, with \<open>ensureError t\<close>
  (followed by the \<open>poll\<close> event of the stop that the error listener performs), it
  emits no \<open>notification-count\<close> and no \<open>notification-count:changed\<close>, and no
  further run of \<open>poll\<close> is scheduled. The record that the stop writes to the store
  carries the unchanged count.
\<close>

theorem poll_failure_atomic:
  assumes "polling (options (this_session w n))"
      and "getNotificationCount (this_session w n) net = (rs, Inl t)"
  shows "(\<forall>c. count (session (ctxs (poll w n net) c)) = count (session (ctxs w c)))
         \<and> emitted (poll w n net) = emitted w @ [(n, ErrorEvent (ensureError t)), (n, Poll False)]
         \<and> filter is_count (emitted (poll w n net)) = filter is_count (emitted w)
         \<and> filter is_changed (emitted (poll w n net)) = filter is_changed (emitted w)
         \<and> filter is_error (emitted (poll w n net))
              = filter is_error (emitted w) @ [(n, ErrorEvent (ensureError t))]
         \<and> scheduled (poll w n net) = scheduled w
         \<and> (\<forall>k. chatId (ctxs w (getSession (notifiers w n))) = Some k \<and> \<not> falsy_number (Some k)
                \<longrightarrow> map_option count (map_of (storage (poll w n net)) k)
                      = Some (count (this_session w n)))"
  by (simp add: poll_failure_fields [OF assms] this_session_def stopped_def stored_def update_conv')

theorem poll_failure_atomic_witness:
  "polling (options (this_session booted 0))
   \<and> getNotificationCount (this_session booted 0) server_error
        = ([sample_request], Inl (Exn (Error ''Got non 200 response status'')))
   \<and> count (session (ctxs (poll booted 0 server_error) 0)) = \<lparr> rooms_count = 0 \<rparr>
   \<and> emitted (poll booted 0 server_error)
        = [(0, Poll True), (0, ErrorEvent (Error ''Got non 200 response status'')), (0, Poll False)]
   \<and> scheduled (poll booted 0 server_error) = [(0, Now)]"
proof -
  note failed = poll_failure_atomic [OF booted_polls booted_fetch(2)]
  from failed have "count (session (ctxs (poll booted 0 server_error) 0)) = count (session (ctxs booted 0))"
    by blast
  moreover from failed have "emitted (poll booted 0 server_error)
      = emitted booted @ [(0, ErrorEvent (ensureError (Exn (Error ''Got non 200 response status'')))), (0, Poll False)]"
    by blast
  moreover from failed have "scheduled (poll booted 0 server_error) = scheduled booted"
    by blast
  ultimately show ?thesis
    using booted_polls booted_fetch(2) by (simp add: booted_fields)
qed

text \<open>
  Claim C1, as the code has it. The listener that \<open>create\<close> registers relays every
  \<open>notification-count\<close> event, not \<open>notification-count:changed\<close>, and reads
  \<open>allowZeroMessages\<close> from the session of the creating context. With that flag
  false, a successful poll cycle that fetches 0 sends nothing, and one that fetches any
  other count sends exactly one message, whether or not the count differs from the
  session's count.
\<close>

theorem poll_notifies_every_cycle:
  assumes "polling (options (this_session w n))"
      and "getNotificationCount (this_session w n) net = (rs, Inr d)"
      and "\<not> allowZeroMessages (options (session (ctxs w (relay (notifiers w n)))))"
  shows "sent (poll w n net)
           = sent w @ (if rooms_count d = 0 then []
                       else [Reply (relay (notifiers w n))
                               (show_int (rooms_count d) @ '' rooms have new messages'')])"
  using assms(3) by (simp add: poll_success_fields [OF assms(1,2)])

theorem poll_notifies_every_cycle_witness:
  "polling (options (this_session booted 0))
   \<and> getNotificationCount (this_session booted 0) three_rooms
        = ([sample_request], Inr \<lparr> rooms_count = 3 \<rparr>)
   \<and> \<not> allowZeroMessages (options (session (ctxs booted (relay (notifiers booted 0)))))
   \<and> sent (poll booted 0 three_rooms) = sent booted @ [Reply 0 ''3 rooms have new messages'']"
proof -
  have quiet: "\<not> allowZeroMessages (options (session (ctxs booted (relay (notifiers booted 0)))))"
    by simp
  from poll_notifies_every_cycle [OF booted_polls booted_fetch(1) quiet]
  have "sent (poll booted 0 three_rooms)
          = sent booted @ [Reply (relay (notifiers booted 0)) (show_int 3 @ '' rooms have new messages'')]"
    by simp
  then show ?thesis
    using booted_polls booted_fetch(1) quiet by (simp add: show_int_def digits.simps)
qed

text \<open>
  Claim C1 as stated fails: after a cycle has fetched three rooms, a second cycle that
  fetches three rooms again, with \<open>allowZeroMessages\<close> false, sends the message again.
\<close>

theorem repeated_count_notifies_again:
  "polling (options (this_session polled_three 0))
   \<and> \<not> allowZeroMessages (options (session (ctxs polled_three (relay (notifiers polled_three 0)))))
   \<and> getNotificationCount (this_session polled_three 0) three_rooms
        = ([sample_request], Inr \<lparr> rooms_count = 3 \<rparr>)
   \<and> rooms_count (count (this_session polled_three 0)) = 3
   \<and> sent (poll polled_three 0 three_rooms)
        = sent polled_three @ [Reply 0 ''3 rooms have new messages'']"
  by (simp add: polled_three_polls poll_success_fields [OF polled_three_polls(1,2)]
        polled_three_fields show_int_def digits.simps)

section \<open>Properties of the commands\<close>

lemma ctx_set_session_fields [simp]:
  "ctxs (ctx_set_session w c f) = (ctxs w)(c := (ctxs w c)\<lparr>session := f (session (ctxs w c))\<rparr>)"
  "next_ctx (ctx_set_session w c f) = next_ctx w"
  "notifiers (ctx_set_session w c f) = notifiers w"
  "next_notifier (ctx_set_session w c f) = next_notifier w"
  "registry (ctx_set_session w c f) = registry w"
  "storage (ctx_set_session w c f) = storage w"
  "sent (ctx_set_session w c f) = sent w"
  "requests (ctx_set_session w c f) = requests w"
  "emitted (ctx_set_session w c f) = emitted w"
  "scheduled (ctx_set_session w c f) = scheduled w"
  by (simp_all add: ctx_set_session_def)

lemma guard_never_holds: "\<not> (isNaN m \<and> gt0 m)"
  by (cases m) simp_all

lemma interval_command_result:
  "interval_command w c m
     = (reply (ctx_set_session w c (set_interval m)) c ''Interval successfully set'', Inr ())"
  by (simp add: interval_command_def guard_never_holds)

lemma in_request_unfold:
  "in_request = (updateSession arriving 0 1)
      \<lparr>ctxs := (ctxs arriving)
          (1 := \<lparr> chatId = Some (Num 7), session = configured, notifier_ref = Some 0 \<rparr>)\<rparr>"
  by (simp add: in_request_def initialize_def arriving_def
        create_existing [where k = "Num 7" and n = 0] booted_fields)

lemma in_request_fields:
  "ctxs in_request (Suc 0) = \<lparr> chatId = Some (Num 7), session = configured, notifier_ref = Some 0 \<rparr>"
  "ctxs in_request 0 = \<lparr> chatId = Some (Num 7), session = configured, notifier_ref = None \<rparr>"
  "notifiers in_request 0 = \<lparr> getSession = Suc 0, controller = 1, relay = 0, once_poll = 1 \<rparr>"
  "registry in_request (Num 7) = Some 0"
  "storage in_request = [(Num 7, configured)]"
  "sent in_request = sent booted"
  "emitted in_request = [(0, Poll True)]"
  "scheduled in_request = [(0, Now)]"
  "requests in_request = []"
  "next_ctx in_request = 2"
  "next_notifier in_request = 1"
  by (simp_all add: in_request_unfold arriving_def booted_fields)

text \<open>
  Claim C2. The claim asks that a non-positive or non-numeric interval is rejected and
  the interval kept. The handler's guard is \<open>Number.isNaN(interval) && interval > 0\<close>,
  which no number satisfies, so the handler never throws: \<open>NaN\<close> (from
  \<open>/interval abc\<close>), \<open>-5\<close> and \<open>0\<close> are each stored as the session's interval
  and answered with \<open>Interval successfully set\<close>.
\<close>

theorem interval_command_accepts_invalid:
  "snd (interval_command in_request 1 NaN) = Inr ()
   \<and> interval (options (session (ctxs (fst (interval_command in_request 1 NaN)) 1))) = NaN
   \<and> snd (interval_command in_request 1 (Num (- 5))) = Inr ()
   \<and> interval (options (session (ctxs (fst (interval_command in_request 1 (Num (- 5)))) 1))) = Num (- 5)
   \<and> snd (interval_command in_request 1 (Num 0)) = Inr ()
   \<and> interval (options (session (ctxs (fst (interval_command in_request 1 (Num 0))) 1))) = Num 0
   \<and> sent (fst (interval_command in_request 1 NaN))
        = sent in_request @ [Reply 1 ''Interval successfully set'']"
  by (simp add: interval_command_result in_request_fields set_interval_def)


lemma call_getNotificationCount_result:
  "getNotificationCount (this_session w n) net = (rs, r) \<Longrightarrow>
   call_getNotificationCount w n net = (w\<lparr>requests := requests w @ rs\<rparr>, r)"
  by (simp add: call_getNotificationCount_def)

lemma call_getNotificationCount_frame:
  "ctxs (fst (call_getNotificationCount w n net)) = ctxs w"
  "storage (fst (call_getNotificationCount w n net)) = storage w"
  "notifiers (fst (call_getNotificationCount w n net)) = notifiers w"
  "registry (fst (call_getNotificationCount w n net)) = registry w"
  "sent (fst (call_getNotificationCount w n net)) = sent w"
  "emitted (fst (call_getNotificationCount w n net)) = emitted w"
  "scheduled (fst (call_getNotificationCount w n net)) = scheduled w"
  by (simp_all add: call_getNotificationCount_def split: prod.splits)

lemma check_command_success:
  assumes "ctx_notifier w c = Inr n"
      and "getNotificationCount (this_session w n) net = (rs, Inr d)"
  shows "check_command w c net =
           (handleNotificationCount
              (ctx_set_session (w\<lparr>requests := requests w @ rs\<rparr>) c (set_rooms_count (rooms_count d)))
              c d True,
            Inr ())"
  using assms by (simp add: check_command_def call_getNotificationCount_def)

lemma check_command_failure:
  assumes "ctx_notifier w c = Inr n"
      and "getNotificationCount (this_session w n) net = (rs, Inl t)"
  shows "check_command w c net = (w\<lparr>requests := requests w @ rs\<rparr>, Inl t)"
  using assms by (simp add: check_command_def call_getNotificationCount_def)

text \<open>
  Claim C8, as the code has it. \<open>getNotificationCount\<close> itself changes no session and
  not the store, whatever it returns. The poll loop is not the only writer of the count,
  though: the \<open>check\<close> handler, once the call has returned a count, assigns its
  \<open>rooms_count\<close> to the session of its context (and to nothing else); when the call
  throws, the handler changes nothing.
\<close>

theorem getNotificationCount_leaves_state:
  "ctxs (fst (call_getNotificationCount w n net)) = ctxs w
   \<and> storage (fst (call_getNotificationCount w n net)) = storage w
   \<and> (ctx_notifier w c = Inr n \<and> getNotificationCount (this_session w n) net = (rs, Inl t)
        \<longrightarrow> ctxs (fst (check_command w c net)) = ctxs w
            \<and> storage (fst (check_command w c net)) = storage w)
   \<and> (ctx_notifier w c = Inr n \<and> getNotificationCount (this_session w n) net = (rs, Inr d)
        \<longrightarrow> ctxs (fst (check_command w c net))
              = (ctxs w)(c := (ctxs w c)
                   \<lparr>session := set_rooms_count (rooms_count d) (session (ctxs w c))\<rparr>)
            \<and> storage (fst (check_command w c net)) = storage w)"
  by (auto simp add: call_getNotificationCount_frame check_command_success check_command_failure)

lemma in_request_session [simp]:
  "this_session in_request 0 = configured"
  "ctx_notifier in_request (Suc 0) = Inr 0"
  "ctx_notifier in_request 1 = Inr 0"
  by (simp_all add: this_session_def in_request_fields ctx_notifier_def)

lemma in_request_fetch:
  "getNotificationCount (this_session in_request 0) three_rooms
     = ([sample_request], Inr \<lparr> rooms_count = 3 \<rparr>)"
  by simp

theorem getNotificationCount_leaves_state_witness:
  "ctx_notifier in_request 1 = Inr 0
   \<and> getNotificationCount (this_session in_request 0) three_rooms
        = ([sample_request], Inr \<lparr> rooms_count = 3 \<rparr>)
   \<and> ctxs (fst (call_getNotificationCount in_request 0 three_rooms)) = ctxs in_request
   \<and> session (ctxs (fst (check_command in_request 1 three_rooms)) 1)
        = set_rooms_count 3 configured
   \<and> storage (fst (check_command in_request 1 three_rooms)) = [(Num 7, configured)]"
proof -
  note at = getNotificationCount_leaves_state
    [of in_request 0 three_rooms 1 "[sample_request]" "NonError []" "\<lparr> rooms_count = 3 \<rparr>"]
  from at have "ctxs (fst (call_getNotificationCount in_request 0 three_rooms)) = ctxs in_request"
    by blast
  moreover from at in_request_session(3) in_request_fetch
  have "ctxs (fst (check_command in_request 1 three_rooms))
          = (ctxs in_request)(1 := (ctxs in_request 1)
              \<lparr>session := set_rooms_count (rooms_count \<lparr> rooms_count = 3 \<rparr>) (session (ctxs in_request 1))\<rparr>)
        \<and> storage (fst (check_command in_request 1 three_rooms)) = storage in_request"
    by blast
  ultimately show ?thesis
    using in_request_session(3) in_request_fetch by (simp add: in_request_fields)
qed

lemma checked_is:
  "checked =
     handleNotificationCount
       (ctx_set_session (in_request\<lparr>requests := requests in_request @ [sample_request]\<rparr>) (Suc 0)
          (set_rooms_count (rooms_count \<lparr> rooms_count = 3 \<rparr>)))
       (Suc 0) \<lparr> rooms_count = 3 \<rparr> True"
  by (simp add: checked_def check_command_success [OF in_request_session(2) in_request_fetch])

lemma checked_fields:
  "snd (check_command in_request (Suc 0) three_rooms) = Inr ()"
  "session (ctxs checked (Suc 0)) = set_rooms_count 3 configured"
  "chatId (ctxs checked (Suc 0)) = Some (Num 7)"
  "getSession (notifiers checked 0) = Suc 0"
  "this_session checked 0 = set_rooms_count 3 configured"
  "emitted checked = emitted in_request"
  "scheduled checked = scheduled in_request"
  "storage checked = [(Num 7, configured)]"
  by (simp_all add: checked_is in_request_fields this_session_def
        check_command_success [OF in_request_session(2) in_request_fetch])

lemma checked_polls:
  "polling (options (this_session checked 0))"
  "getNotificationCount (this_session checked 0) server_error
     = ([sample_request], Inl (Exn (Error ''Got non 200 response status'')))"
  by (simp_all add: checked_fields set_rooms_count_def getNotificationCount_def server_error_def
        sample_request_def configured_def BASE_ENDPOINT_def NOTIFICATION_COUNT_PATH_def)

text \<open>
  Claim C8 as stated fails where it says that only the poll loop updates the count: the
  \<open>check\<close> command on a session whose count is 0, while the endpoint reports three
  rooms, leaves 3 in the session's count without any poll event or timer. The store
  still holds 0 then; when the next poll fails, the stop of the error listener writes
  the session, and with it the count 3, to the store.
\<close>

theorem check_command_updates_count:
  "rooms_count (count (session (ctxs in_request 1))) = 0
   \<and> snd (check_command in_request 1 three_rooms) = Inr ()
   \<and> rooms_count (count (session (ctxs checked 1))) = 3
   \<and> emitted checked = emitted in_request
   \<and> scheduled checked = scheduled in_request
   \<and> map_option count (map_of (storage checked) (Num 7)) = Some \<lparr> rooms_count = 0 \<rparr>
   \<and> map_option count (map_of (storage (poll checked 0 server_error)) (Num 7))
        = Some \<lparr> rooms_count = 3 \<rparr>"
  by (simp add: checked_fields in_request_fields poll_failure_fields [OF checked_polls]
        stored_def stopped_def set_rooms_count_def)


section \<open>Properties of the registry\<close>

lemma start_frame [simp]:
  "registry (startPollingNotifications w n force) = registry w"
  "next_notifier (startPollingNotifications w n force) = next_notifier w"
  "next_ctx (startPollingNotifications w n force) = next_ctx w"
  "chatId (ctxs (startPollingNotifications w n force) c) = chatId (ctxs w c)"
  by (cases "\<not> polling (options (this_session w n)) \<or> force";
      simp add: start_fields start_noop)+

lemma create_registry:
  assumes "chatId (ctxs w c) = Some k" and "\<not> falsy_number (Some k)"
  shows "registry (fst (create w c)) =
           (case registry w k of None \<Rightarrow> (registry w)(k \<mapsto> next_notifier w) | Some n \<Rightarrow> registry w)"
    and "next_notifier (fst (create w c)) =
           (case registry w k of None \<Rightarrow> Suc (next_notifier w) | Some n \<Rightarrow> next_notifier w)"
    and "snd (create w c) = Inr (case registry w k of None \<Rightarrow> next_notifier w | Some n \<Rightarrow> n)"
    and "chatId (ctxs (fst (create w c)) c') = chatId (ctxs w c')"
  using assms
  by (cases "registry w k"; simp add: create_new create_existing)+

text \<open>
  Claim C9. For a context with a chat id \<open>k\<close>: if \<open>k\<close> is not registered,
  \<open>create\<close> builds a notifier, registers it under \<open>k\<close> and returns it; if \<open>k\<close>
  is registered with notifier \<open>n\<close>, \<open>create\<close> returns \<open>n\<close> and changes nothing
  but the \<open>getSession\<close> of \<open>n\<close>, which becomes the new context: no notifier is
  built, and the controller, the pending listeners and the scheduled runs of \<open>poll\<close>
  stay as they are. A second call for the same chat id returns the notifier of the first.
\<close>

theorem create_idempotent:
  assumes "chatId (ctxs w c) = Some k" and "\<not> falsy_number (Some k)"
  shows "(registry w k = None \<longrightarrow>
            snd (create w c) = Inr (next_notifier w)
            \<and> registry (fst (create w c)) k = Some (next_notifier w)
            \<and> next_notifier (fst (create w c)) = Suc (next_notifier w))
         \<and> (\<forall>n. registry w k = Some n \<longrightarrow>
               create w c = (updateSession w n c, Inr n)
               \<and> registry (fst (create w c)) = registry w
               \<and> next_notifier (fst (create w c)) = next_notifier w
               \<and> notifiers (fst (create w c)) = (notifiers w)(n := (notifiers w n)\<lparr>getSession := c\<rparr>)
               \<and> scheduled (fst (create w c)) = scheduled w
               \<and> emitted (fst (create w c)) = emitted w
               \<and> sent (fst (create w c)) = sent w
               \<and> ctxs (fst (create w c)) = ctxs w
               \<and> storage (fst (create w c)) = storage w)
         \<and> (\<forall>c'. chatId (ctxs w c') = Some k \<longrightarrow>
               snd (create (fst (create w c)) c') = snd (create w c)
               \<and> registry (fst (create (fst (create w c)) c')) = registry (fst (create w c))
               \<and> next_notifier (fst (create (fst (create w c)) c')) = next_notifier (fst (create w c)))"
proof (intro conjI allI impI)
  fix c' assume c': "chatId (ctxs w c') = Some k"
  have same: "chatId (ctxs (fst (create w c)) c') = Some k"
    using c' by (simp add: create_registry(4) [OF assms])
  show "snd (create (fst (create w c)) c') = snd (create w c)"
    by (cases "registry w k")
       (simp_all add: create_registry(3) [OF same assms(2)] create_registry [OF assms])
  show "registry (fst (create (fst (create w c)) c')) = registry (fst (create w c))"
    by (cases "registry w k")
       (simp_all add: create_registry(1) [OF same assms(2)] create_registry [OF assms])
  show "next_notifier (fst (create (fst (create w c)) c')) = next_notifier (fst (create w c))"
    by (cases "registry w k")
       (simp_all add: create_registry(2) [OF same assms(2)] create_registry [OF assms])
qed (simp_all add: create_registry [OF assms] create_existing [OF assms])


lemma arriving_fields:
  "chatId (ctxs arriving (Suc 0)) = Some (Num 7)"
  "registry arriving (Num 7) = Some 0"
  "notifiers arriving 0 = \<lparr> getSession = 0, controller = 1, relay = 0, once_poll = 1 \<rparr>"
  "scheduled arriving = [(0, Now)]"
  "next_notifier arriving = 1"
  by (simp_all add: arriving_def booted_fields)

theorem create_idempotent_witness:
  "chatId (ctxs arriving 1) = Some (Num 7)
   \<and> \<not> falsy_number (Some (Num 7))
   \<and> registry arriving (Num 7) = Some 0
   \<and> create arriving 1 = (updateSession arriving 0 1, Inr 0)
   \<and> notifiers (fst (create arriving 1)) 0
        = \<lparr> getSession = 1, controller = 1, relay = 0, once_poll = 1 \<rparr>
   \<and> scheduled (fst (create arriving 1)) = [(0, Now)]
   \<and> next_notifier (fst (create arriving 1)) = 1
   \<and> snd (create (fst (create arriving 1)) 1) = Inr 0"
proof -
  have chat: "chatId (ctxs arriving 1) = Some (Num 7)"
    and truthy: "\<not> falsy_number (Some (Num 7))"
    and known: "registry arriving (Num 7) = Some 0"
    by (simp_all add: arriving_fields)
  note twice = create_idempotent [OF chat truthy]
  from twice known have
    "create arriving 1 = (updateSession arriving 0 1, Inr 0)
     \<and> next_notifier (fst (create arriving 1)) = next_notifier arriving
     \<and> notifiers (fst (create arriving 1))
          = (notifiers arriving)(0 := (notifiers arriving 0)\<lparr>getSession := 1\<rparr>)
     \<and> scheduled (fst (create arriving 1)) = scheduled arriving"
    by blast
  moreover from twice chat
  have "snd (create (fst (create arriving 1)) 1) = snd (create arriving 1)"
    by blast
  ultimately show ?thesis
    using chat truthy known by (simp add: arriving_fields)
qed

lemma poll_registry: "registry (poll w n net) = registry w"
proof (cases "polling (options (this_session w n))")
  case False
  then show ?thesis by (simp add: poll_idle)
next
  case True
  obtain rs r where g: "getNotificationCount (this_session w n) net = (rs, r)"
    by (cases "getNotificationCount (this_session w n) net")
  show ?thesis
  proof (cases r)
    case (Inl t)
    with True g show ?thesis by (simp add: poll_failure_fields)
  next
    case (Inr d)
    with True g show ?thesis by (simp add: poll_success_fields)
  qed
qed

lemma create_registry_kept:
  "registry w k = Some n \<Longrightarrow> registry (fst (create w c)) k = Some n"
proof (cases "falsy_number (chatId (ctxs w c))")
  case True
  then show "registry w k = Some n \<Longrightarrow> ?thesis" by (simp add: create_invalid)
next
  case False
  then obtain k' where k': "chatId (ctxs w c) = Some k'" "\<not> falsy_number (Some k')"
    by (cases "chatId (ctxs w c)") auto
  show "registry w k = Some n \<Longrightarrow> ?thesis"
    by (cases "registry w k'") (auto simp add: create_registry(1) [OF k'])
qed

lemma boot_registry_kept:
  "registry w k = Some n \<Longrightarrow> registry (fst (boot w es)) k = Some n"
proof (induction es arbitrary: w)
  case Nil
  then show ?case by simp
next
  case (Cons e es)
  have made: "registry (fst (create (new_ctx w (Some (key_number e)) s) (next_ctx w))) k = Some n" for s
    using Cons.prems by (intro create_registry_kept) simp
  show ?case
  proof (cases "read_result e")
    case (ReadFail t)
    with Cons.prems show ?thesis by simp
  next
    case (ReadOk s)
    obtain w2 r where c: "create (new_ctx w (Some (key_number e)) s) (next_ctx w) = (w2, r)"
      by (cases "create (new_ctx w (Some (key_number e)) s) (next_ctx w)")
    with made [of s] have w2: "registry w2 k = Some n" by simp
    then have "registry (sendMessage w2 (key_number e) ''Bot booted'') k = Some n" by simp
    from Cons.IH [OF this] w2 ReadOk c show ?thesis
      by (cases r; cases "send_result e") simp_all
  qed
qed

text \<open>Nothing removes a notifier from the registry or replaces it.\<close>

lemma registry_entries_stay:
  "registry (poll w n net) = registry w"
  "registry (stopPollingNotifications w n commit) = registry w"
  "registry (startPollingNotifications w n force) = registry w"
  "registry (fst (check_command w c net)) = registry w"
  "registry (fst (interval_command w c m)) = registry w"
  "registry w k = Some n' \<Longrightarrow> registry (fst (create w c)) k = Some n'"
  "registry w k = Some n' \<Longrightarrow> registry (fst (boot w es)) k = Some n'"
proof -
  show "registry (fst (check_command w c net)) = registry w"
    by (auto simp add: check_command_def call_getNotificationCount_def
          split: sum.splits prod.splits)
qed (simp_all add: poll_registry interval_command_result create_registry_kept boot_registry_kept)

section \<open>Properties of the boot loop\<close>

lemma boot_append:
  "boot w (pre @ es) =
     (case boot w pre of (w', Inl t) \<Rightarrow> (w', Inl t) | (w', Inr u) \<Rightarrow> boot w' es)"
proof (induction pre arbitrary: w)
  case Nil
  show ?case by simp
next
  case (Cons e pre)
  show ?case
    by (simp add: Cons.IH split: read_outcome.splits prod.splits sum.splits option.splits)
qed

lemma boot_unreadable:
  "read_result e = ReadFail t \<Longrightarrow> boot w (e # post) = (w, Inl t)"
  by simp

lemma boot_invalid_key:
  "read_result e = ReadOk s \<Longrightarrow> falsy_number (Some (key_number e)) \<Longrightarrow>
   boot w (e # post) = (new_ctx w (Some (key_number e)) s, Inl (Exn (InvalidError ''chat id'')))"
  by (simp add: create_invalid)

text \<open>
  Claim C3, as the code has it. The boot loop has no \<open>try\<close>. Over a store with no
  sessions it does nothing. When \<open>storage.read\<close> throws for a record, or
  \<open>create\<close> throws for it because its key is not a usable chat id, the error leaves
  the loop: the records before it in key order are restored (unless one of them
  failed first), and the failing record and every record after it are not.
\<close>

theorem boot_stops_at_failure:
  "boot w [] = (w, Inr ())
   \<and> (read_result e = ReadFail t \<longrightarrow>
        boot w (pre @ e # post) =
          (case boot w pre of
             (w', Inl t') \<Rightarrow> (w', Inl t')
           | (w', Inr u) \<Rightarrow> (w', Inl t)))
   \<and> (read_result e = ReadOk s \<and> falsy_number (Some (key_number e)) \<longrightarrow>
        boot w (pre @ e # post) =
          (case boot w pre of
             (w', Inl t') \<Rightarrow> (w', Inl t')
           | (w', Inr u) \<Rightarrow>
               (new_ctx w' (Some (key_number e)) s, Inl (Exn (InvalidError ''chat id'')))))"
  by (auto simp add: boot_append boot_unreadable boot_invalid_key simp del: boot.simps(2)
      split: prod.splits sum.splits)

lemma boot_good_seven:
  "boot (fresh_process st) [good_seven]
     = (sendMessage
          (updateSession
             (sendMessage
                (startPollingNotifications
                   (register_notifier (new_ctx (fresh_process st) (Some (Num 7)) configured) (Num 7) 0)
                   0 True)
                (Num 7) ''Continue polling after reboot'')
             0 0)
          (Num 7) ''Bot booted'',
        Inr ())"
  by (simp add: good_seven_def create_new)

theorem boot_stops_at_failure_witness:
  "read_result bad_five
     = ReadFail (Exn (PlatformError ''SyntaxError'' ''Unexpected end of JSON input''))
   \<and> boot (fresh_process []) [good_seven, bad_five, good_nine]
       = (fst (boot (fresh_process []) [good_seven]),
          Inl (Exn (PlatformError ''SyntaxError'' ''Unexpected end of JSON input'')))"
proof -
  have unreadable: "read_result bad_five
     = ReadFail (Exn (PlatformError ''SyntaxError'' ''Unexpected end of JSON input''))"
    by (simp add: bad_five_def)
  from boot_stops_at_failure
         [of "fresh_process []" bad_five
             "Exn (PlatformError ''SyntaxError'' ''Unexpected end of JSON input'')"
             "[good_seven]" "[good_nine]" configured]
       unreadable
  have "boot (fresh_process []) ([good_seven] @ bad_five # [good_nine]) =
          (case boot (fresh_process []) [good_seven] of
             (w', Inl t') \<Rightarrow> (w', Inl t')
           | (w', Inr u) \<Rightarrow>
               (w', Inl (Exn (PlatformError ''SyntaxError'' ''Unexpected end of JSON input''))))"
    by blast
  then show ?thesis
    using unreadable by (simp add: boot_good_seven del: boot.simps)
qed

text \<open>
  Claim C3 as stated fails: with an unreadable record of chat 5 before the readable
  record of chat 7, the loop ends with the read error and chat 7 is not restored (no
  notifier, no poll, no message), though alone it would be.
\<close>

theorem unreadable_record_aborts_boot:
  "snd (boot (fresh_process []) [bad_five, good_seven])
     = Inl (Exn (PlatformError ''SyntaxError'' ''Unexpected end of JSON input''))
   \<and> registry (fst (boot (fresh_process []) [bad_five, good_seven])) (Num 7) = None
   \<and> scheduled (fst (boot (fresh_process []) [bad_five, good_seven])) = []
   \<and> sent (fst (boot (fresh_process []) [bad_five, good_seven])) = []
   \<and> snd (boot (fresh_process []) [good_seven]) = Inr ()
   \<and> registry (fst (boot (fresh_process []) [good_seven])) (Num 7) = Some 0"
  by (simp add: boot_good_seven del: boot.simps) (simp add: bad_five_def)

section \<open>Properties of the reactive state handle\<close>

lemma resolve_append:
  "resolve v (ps @ qs) = (case resolve v ps of None \<Rightarrow> None | Some v' \<Rightarrow> resolve v' qs)"
  by (induction ps arbitrary: v) (auto split: jsval.splits option.splits)

lemma resolve_not_object:
  "\<not> instanceof_Object v \<Longrightarrow> resolve v qs = (if qs = [] then Some v else None)"
  by (cases qs; cases v) simp_all

lemma walk_state [simp]: "snd (walk trig ps qs h) = h"
  by (induction qs arbitrary: ps) (auto simp add: proxy_get_def split: option.splits)

lemma walk_handle:
  "fst (walk trig ps qs h) = Some (Handle pt) \<longleftrightarrow>
     pt = ps @ qs \<and> (qs = [] \<or> (\<exists>v. resolve (wrapped h) (ps @ qs) = Some v \<and> instanceof_Object v))"
proof (induction qs arbitrary: ps)
  case Nil
  show ?case by auto
next
  case (Cons q qs)
  show ?case
  proof (cases "resolve (wrapped h) (ps @ [q])")
    case None
    then have "resolve (wrapped h) (ps @ q # qs) = None"
      using resolve_append [of "wrapped h" "ps @ [q]" qs] by simp
    with None show ?thesis by (simp add: proxy_get_def)
  next
    case (Some v)
    have further: "resolve (wrapped h) (ps @ q # qs) = resolve v qs"
      using resolve_append [of "wrapped h" "ps @ [q]" qs] Some by simp
    show ?thesis
    proof (cases "instanceof_Object v")
      case True
      with Some further Cons.IH [of "ps @ [q]"] show ?thesis
        by (auto simp add: proxy_get_def)
    next
      case False
      with Some further show ?thesis
        by (auto simp add: proxy_get_def resolve_not_object)
    qed
  qed
qed

lemma walk_from_root:
  "instanceof_Object (wrapped h) \<Longrightarrow>
   walk trig [] qs h = (Some (Handle pt), h') \<longleftrightarrow>
     h' = h \<and> pt = qs \<and> reaches h (WritePath qs p x)"
proof -
  assume obj: "instanceof_Object (wrapped h)"
  have "walk trig [] qs h = (Some (Handle pt), h') \<longleftrightarrow>
          fst (walk trig [] qs h) = Some (Handle pt) \<and> snd (walk trig [] qs h) = h'"
    by (cases "walk trig [] qs h") auto
  also have "\<dots> \<longleftrightarrow> h' = h \<and> pt = qs \<and> reaches h (WritePath qs p x)"
    using obj by (auto simp add: walk_handle reaches_def split: option.splits)
  finally show ?thesis .
qed


lemma perform_read [simp]: "perform trig (ReadPath qs) h = h"
  by simp

lemma perform_write:
  assumes "instanceof_Object (wrapped h)"
  shows "perform trig (WritePath qs p x) h =
           (if reaches h (WritePath qs p x) then proxy_set trig qs p x h else h)"
proof (cases "walk trig [] qs h")
  case (Pair g h')
  have h': "h' = h" using walk_state [of trig "[]" qs h] Pair by simp
  show ?thesis
  proof (cases "reaches h (WritePath qs p x)")
    case True
    then have "walk trig [] qs h = (Some (Handle qs), h)"
      using walk_from_root [OF assms, of trig qs qs h p x] by simp
    with True show ?thesis by simp
  next
    case False
    then have "\<And>pt. g \<noteq> Some (Handle pt)"
      using walk_from_root [OF assms, of trig qs _ h' p x] Pair by auto
    with False Pair h' show ?thesis
      by (auto split: option.splits got.splits)
  qed
qed

lemma assign_object [simp]: "instanceof_Object (assign v qs p x) = instanceof_Object v"
  by (cases qs; cases v) (auto split: option.splits)

lemma assign_resolve:
  "resolve v qs = Some u \<Longrightarrow> instanceof_Object u \<Longrightarrow>
   resolve (assign v qs p x) (qs @ [p]) = Some x"
proof (induction qs arbitrary: v)
  case Nil
  then show ?case by (cases v) (auto simp add: update_conv')
next
  case (Cons q qs)
  then show ?case
    by (cases v) (auto simp add: update_conv' split: option.splits)
qed

lemma persist_fields:
  assumes "owner_chat h = Some k" and "\<not> falsy_number (Some k)"
  shows "wrapped (persist h) = wrapped h"
    and "owner_chat (persist h) = Some k"
    and "calls (persist h) = Suc (calls h)"
    and "disk (persist h) = AList.update k (wrapped h) (disk h)"
  using assms by (simp_all add: persist_def Let_def)

lemma proxy_set_fields:
  assumes "owner_chat h = Some k" and "\<not> falsy_number (Some k)"
  shows "wrapped (proxy_set persist qs p x h) = assign (wrapped h) qs p x"
    and "owner_chat (proxy_set persist qs p x h) = Some k"
    and "calls (proxy_set persist qs p x h) = Suc (calls h)"
    and "disk (proxy_set persist qs p x h) = AList.update k (assign (wrapped h) qs p x) (disk h)"
  using assms by (simp_all add: proxy_set_def persist_fields)

lemma proxy_set_synced:
  assumes "owner_chat h = Some k" and "\<not> falsy_number (Some k)"
  shows "synced (proxy_set persist qs p x h)"
  by (simp add: synced_def proxy_set_fields [OF assms] update_conv')

text \<open>What stays true of a wrapped session: it is an object and belongs to its chat.\<close>

lemma perform_keeps:
  assumes "owner_chat h = Some k" and "\<not> falsy_number (Some k)" and "instanceof_Object (wrapped h)"
  shows "owner_chat (perform persist a h) = Some k"
    and "instanceof_Object (wrapped (perform persist a h))"
  using assms
  by (cases a; simp add: perform_write proxy_set_fields del: perform.simps(2))+

lemma perform_calls:
  assumes "owner_chat h = Some k" and "\<not> falsy_number (Some k)" and "instanceof_Object (wrapped h)"
  shows "calls (perform persist a h) = calls h + (if reaches h a then 1 else 0)"
  using assms
  by (cases a) (simp_all add: perform_write proxy_set_fields reaches_def del: perform.simps(2))

lemma perform_synced:
  assumes "owner_chat h = Some k" and "\<not> falsy_number (Some k)" and "instanceof_Object (wrapped h)"
      and "synced h \<or> reaches h a"
  shows "synced (perform persist a h)"
  using assms
  by (cases a) (auto simp add: perform_write proxy_set_synced reaches_def simp del: perform.simps(2))

lemma run_calls:
  assumes "owner_chat h = Some k" and "\<not> falsy_number (Some k)" and "instanceof_Object (wrapped h)"
  shows "calls (run_accesses as h) = calls h + writes_through as h"
  using assms
proof (induction as arbitrary: h)
  case Nil
  show ?case by simp
next
  case (Cons a as)
  from Cons.prems have "calls (run_accesses as (perform persist a h))
      = calls (perform persist a h) + writes_through as (perform persist a h)"
    by (intro Cons.IH perform_keeps)
  with Cons.prems show ?case
    by (simp add: perform_calls del: perform.simps)
qed

lemma run_synced:
  assumes "owner_chat h = Some k" and "\<not> falsy_number (Some k)" and "instanceof_Object (wrapped h)"
      and "synced h \<or> 0 < writes_through as h"
  shows "synced (run_accesses as h)"
  using assms
proof (induction as arbitrary: h)
  case Nil
  then show ?case by simp
next
  case (Cons a as)
  have keeps: "owner_chat (perform persist a h) = Some k"
    "instanceof_Object (wrapped (perform persist a h))"
    using Cons.prems by (simp_all add: perform_keeps del: perform.simps)
  have "synced (perform persist a h) \<or> 0 < writes_through as (perform persist a h)"
  proof (cases "synced h \<or> reaches h a")
    case True
    then show ?thesis using Cons.prems perform_synced by blast
  next
    case False
    with Cons.prems(4) show ?thesis by simp
  qed
  with keeps Cons.prems(2) show ?case
    by (simp add: Cons.IH del: perform.simps)
qed


text \<open>
  Claim C6. For a wrapped session that is an object and whose context has a chat id,
  and for every sequence of accesses through the handle: the callback has run once
  for each write that reached an object, at whatever depth, and never for a read;
  after a write, and from then on, the store's record equals the session in memory;
  a read changes nothing. A single write assigns the value at its path, runs the
  callback once and leaves the whole session as it is after the assignment in the
  store.
\<close>

theorem handle_writes_through:
  assumes "owner_chat h = Some k" and "\<not> falsy_number (Some k)" and "instanceof_Object (wrapped h)"
  shows "calls (run_accesses acs h) = calls h + writes_through acs h
         \<and> (0 < writes_through acs h \<longrightarrow> synced (run_accesses acs h))
         \<and> (synced h \<longrightarrow> synced (run_accesses acs h))
         \<and> perform persist (ReadPath qs) h = h
         \<and> (reaches h (WritePath qs p x) \<longrightarrow>
              calls (perform persist (WritePath qs p x) h) = Suc (calls h)
              \<and> resolve (wrapped (perform persist (WritePath qs p x) h)) (qs @ [p]) = Some x
              \<and> map_of (disk (perform persist (WritePath qs p x) h)) k
                   = Some (wrapped (perform persist (WritePath qs p x) h)))"
proof (intro conjI impI)
  show "calls (run_accesses acs h) = calls h + writes_through acs h"
    by (rule run_calls [OF assms])
  show "synced (run_accesses acs h)" if "0 < writes_through acs h"
    using that by (intro run_synced [OF assms]) simp
  show "synced (run_accesses acs h)" if "synced h"
    using that by (intro run_synced [OF assms]) simp
  show "perform persist (ReadPath qs) h = h"
    by simp
next
  assume r: "reaches h (WritePath qs p x)"
  then obtain u where u: "resolve (wrapped h) qs = Some u" "instanceof_Object u"
    by (auto simp add: reaches_def split: option.splits)
  have step: "perform persist (WritePath qs p x) h = proxy_set persist qs p x h"
    using r by (simp add: perform_write [OF assms(3)] del: perform.simps)
  show "calls (perform persist (WritePath qs p x) h) = Suc (calls h)"
    by (simp add: step proxy_set_fields [OF assms(1,2)] del: perform.simps)
  show "resolve (wrapped (perform persist (WritePath qs p x) h)) (qs @ [p]) = Some x"
    by (simp add: step proxy_set_fields [OF assms(1,2)] assign_resolve [OF u] del: perform.simps)
  show "map_of (disk (perform persist (WritePath qs p x) h)) k
          = Some (wrapped (perform persist (WritePath qs p x) h))"
    by (simp add: step proxy_set_fields [OF assms(1,2)] update_conv' del: perform.simps)
qed

lemma default_heap_facts:
  "owner_chat default_heap = Some (Num 7)"
  "instanceof_Object (wrapped default_heap)"
  "reaches default_heap set_interval_5000"
  "writes_through sample_accesses default_heap = 1"
  by (simp_all add: default_heap_def default_tree_def set_interval_5000_def sample_accesses_def
        reaches_def proxy_get_def proxy_set_def persist_def)

theorem handle_writes_through_witness:
  "owner_chat default_heap = Some (Num 7)
   \<and> \<not> falsy_number (Some (Num 7))
   \<and> instanceof_Object (wrapped default_heap)
   \<and> reaches default_heap set_interval_5000
   \<and> calls (run_accesses sample_accesses default_heap) = 1
   \<and> synced (run_accesses sample_accesses default_heap)
   \<and> resolve (wrapped (perform persist set_interval_5000 default_heap)) [''options'', ''interval'']
        = Some (JNum (Num 5000))
   \<and> map_of (disk (perform persist set_interval_5000 default_heap)) (Num 7)
        = Some (wrapped (perform persist set_interval_5000 default_heap))"
proof -
  have truthy: "\<not> falsy_number (Some (Num 7))" by simp
  note at = handle_writes_through
    [OF default_heap_facts(1) truthy default_heap_facts(2),
     where acs = sample_accesses and qs = "[''options'']" and p = "''interval''"
       and x = "JNum (Num 5000)"]
  have through: "0 < writes_through sample_accesses default_heap"
    by (simp add: default_heap_facts)
  have reached: "reaches default_heap (WritePath [''options''] ''interval'' (JNum (Num 5000)))"
    using default_heap_facts(3) by (simp add: set_interval_5000_def)
  from at through have "calls (run_accesses sample_accesses default_heap)
      = calls default_heap + writes_through sample_accesses default_heap
      \<and> synced (run_accesses sample_accesses default_heap)"
    by blast
  moreover from at reached have
    "resolve (wrapped (perform persist (WritePath [''options''] ''interval'' (JNum (Num 5000))) default_heap))
        ([''options''] @ [''interval'']) = Some (JNum (Num 5000))
     \<and> map_of (disk (perform persist (WritePath [''options''] ''interval'' (JNum (Num 5000))) default_heap)) (Num 7)
        = Some (wrapped (perform persist (WritePath [''options''] ''interval'' (JNum (Num 5000))) default_heap))"
    by blast
  ultimately show ?thesis
    using truthy default_heap_facts
    by (simp add: set_interval_5000_def default_heap_def del: perform.simps)
qed


text \<open>
  The assignments that the notifier makes through \<open>this.session\<close> are such writes,
  and \<open>set_session\<close> leaves the store as they do.
\<close>

lemma default_tree_is: "default_tree = tree_of createNotifierState"
  by (simp add: default_tree_def tree_of_def tree_of_count_def tree_of_string_def
        createNotifierState_def DEFAULT_NOTIFIER_STATE_def)

lemma notifier_assignments:
  "assign (tree_of s) [''options''] ''polling'' (JBool b) = tree_of (set_polling b s)"
  "assign (tree_of s) [''options''] ''pollingOnBoot'' (JBool b) = tree_of (set_pollingOnBoot b s)"
  "assign (tree_of s) [] ''count'' (tree_of_count d) = tree_of (set_count d s)"
  by (simp_all add: tree_of_def set_polling_def set_pollingOnBoot_def set_count_def)

lemma set_session_written:
  assumes "chatId (ctxs w (getSession (notifiers w n))) = Some k" and "\<not> falsy_number (Some k)"
  shows "map_of (storage (set_session w n f)) k = Some (this_session (set_session w n f) n)"
  using assms by (simp add: stored_def update_conv')

section \<open>Stopping and restarting\<close>










subsection \<open>A boot loop with failures\<close>














lemma entry_of_key [simp]: "key_number (entry_of rd sd ks) = fst ks"
  by (simp add: entry_of_def)




lemma stopped_fields [simp]:
  "polling (options (stopped commit s)) = False"
  "pollingOnBoot (options (stopped commit s)) = (\<not> commit \<and> pollingOnBoot (options s))"
  "polling (options (started s)) = True"
  "pollingOnBoot (options (started s)) = True"
  by (simp_all add: stopped_def started_def)











lemma started_configured [simp]: "started configured = configured"
  by (simp add: started_def set_polling_def set_pollingOnBoot_def configured_def)





end
